theory Spec2Isabelle
  imports Main
begin

section \<open>JavaScript strings\<close>

text \<open>
  A JavaScript string is a sequence of code units. The model uses \<open>string\<close>: every
  \<open>char\<close> stands for one code unit in the range 0..255 (ASCII and the Latin-1
  supplement). The character predicates below are the ones the regular expressions of
  \<^verbatim>\<open>aiNaming.js\<close> use: \<^verbatim>\<open>\d\<close>, \<^verbatim>\<open>\w\<close>, \<^verbatim>\<open>\s\<close>, \<^verbatim>\<open>[a-z]\<close>, \<^verbatim>\<open>[A-Z]\<close>.
\<close>

definition lowerLetters :: string where
  "lowerLetters = ''abcdefghijklmnopqrstuvwxyz''"

definition upperLetters :: string where
  "upperLetters = ''ABCDEFGHIJKLMNOPQRSTUVWXYZ''"

definition digitChars :: string where
  "digitChars = ''0123456789''"

definition isDigit :: "char \<Rightarrow> bool" where
  "isDigit c = (c \<in> set digitChars)"

definition isUpper :: "char \<Rightarrow> bool" where
  "isUpper c = (c \<in> set upperLetters)"

definition isLower :: "char \<Rightarrow> bool" where
  "isLower c = (c \<in> set lowerLetters)"

definition isAlpha :: "char \<Rightarrow> bool" where
  "isAlpha c = (isUpper c \<or> isLower c)"

text \<open>\<^verbatim>\<open>\w\<close> is \<^verbatim>\<open>[A-Za-z0-9_]\<close>.\<close>

definition isWordChar :: "char \<Rightarrow> bool" where
  "isWordChar c = (isAlpha c \<or> isDigit c \<or> c = CHR ''_'')"

text \<open>
  \<^verbatim>\<open>\s\<close> and \<^verbatim>\<open>trim()\<close>: white space and line terminators. Below 256 these
  are TAB, LF, VT, FF, CR, SPACE and the no-break space.
\<close>

definition spaceChars :: string where
  "spaceChars = [CHR 0x09, CHR 0x0A, CHR 0x0B, CHR 0x0C, CHR 0x0D, CHR 0x20, CHR 0xA0]"

definition isSpace :: "char \<Rightarrow> bool" where
  "isSpace c = (c \<in> set spaceChars)"

text \<open>Replace a character by its partner in a table, leave every other character alone.\<close>

definition translate :: "string \<Rightarrow> string \<Rightarrow> char \<Rightarrow> char" where
  "translate from to c = (case map_of (zip from to) c of None \<Rightarrow> c | Some d \<Rightarrow> d)"

definition asciiLower :: "char \<Rightarrow> char" where
  "asciiLower c = translate upperLetters lowerLetters c"

definition asciiUpper :: "char \<Rightarrow> char" where
  "asciiUpper c = translate lowerLetters upperLetters c"

text \<open>
  \<^verbatim>\<open>String.prototype.toLowerCase\<close> on code units below 256: the letters A-Z and the
  Latin-1 capitals 0xC0..0xDE (without the multiplication sign 0xD7) go to the code unit
  0x20 above.
\<close>

definition latin1Upper :: string where
  "latin1Upper =
     [CHR 0xC0, CHR 0xC1, CHR 0xC2, CHR 0xC3, CHR 0xC4, CHR 0xC5, CHR 0xC6, CHR 0xC7,
      CHR 0xC8, CHR 0xC9, CHR 0xCA, CHR 0xCB, CHR 0xCC, CHR 0xCD, CHR 0xCE, CHR 0xCF,
      CHR 0xD0, CHR 0xD1, CHR 0xD2, CHR 0xD3, CHR 0xD4, CHR 0xD5, CHR 0xD6,
      CHR 0xD8, CHR 0xD9, CHR 0xDA, CHR 0xDB, CHR 0xDC, CHR 0xDD, CHR 0xDE]"

definition latin1Lower :: string where
  "latin1Lower =
     [CHR 0xE0, CHR 0xE1, CHR 0xE2, CHR 0xE3, CHR 0xE4, CHR 0xE5, CHR 0xE6, CHR 0xE7,
      CHR 0xE8, CHR 0xE9, CHR 0xEA, CHR 0xEB, CHR 0xEC, CHR 0xED, CHR 0xEE, CHR 0xEF,
      CHR 0xF0, CHR 0xF1, CHR 0xF2, CHR 0xF3, CHR 0xF4, CHR 0xF5, CHR 0xF6,
      CHR 0xF8, CHR 0xF9, CHR 0xFA, CHR 0xFB, CHR 0xFC, CHR 0xFD, CHR 0xFE]"

definition toLowerChar :: "char \<Rightarrow> char" where
  "toLowerChar c = translate (upperLetters @ latin1Upper) (lowerLetters @ latin1Lower) c"

definition toLowerCase :: "string \<Rightarrow> string" where
  "toLowerCase s = map toLowerChar s"

definition trim :: "string \<Rightarrow> string" where
  "trim s = rev (dropWhile isSpace (rev (dropWhile isSpace s)))"

text \<open>\<^verbatim>\<open>s.substring(0, n)\<close>\<close>

definition substring0 :: "nat \<Rightarrow> string \<Rightarrow> string" where
  "substring0 n s = take n s"

text \<open>\<^verbatim>\<open>xs.join(sep)\<close>\<close>

fun join :: "string \<Rightarrow> string list \<Rightarrow> string" where
  "join sep [] = []"
| "join sep [x] = x"
| "join sep (x # y # ys) = x @ sep @ join sep (y # ys)"

text \<open>\<^verbatim>\<open>s.split(c)\<close> for a one-character separator; the empty string splits into \<open>[""]\<close>.\<close>

fun splitOn :: "char \<Rightarrow> string \<Rightarrow> string list" where
  "splitOn c [] = [[]]"
| "splitOn c (x # xs) =
     (if x = c then [] # splitOn c xs
      else (case splitOn c xs of [] \<Rightarrow> [[x]] | w # ws \<Rightarrow> (x # w) # ws))"

section \<open>Character classes of the regular expressions\<close>

datatype citem =
    Lower           \<comment> \<open>\<^verbatim>\<open>a-z\<close>\<close>
  | Upper           \<comment> \<open>\<^verbatim>\<open>A-Z\<close>\<close>
  | Dig             \<comment> \<open>\<^verbatim>\<open>0-9\<close> and \<^verbatim>\<open>\d\<close>\<close>
  | WS              \<comment> \<open>\<^verbatim>\<open>\s\<close>\<close>
  | Ch char         \<comment> \<open>a single character\<close>

fun inItem :: "citem \<Rightarrow> char \<Rightarrow> bool" where
  "inItem Lower c = isLower c"
| "inItem Upper c = isUpper c"
| "inItem Dig c = isDigit c"
| "inItem WS c = isSpace c"
| "inItem (Ch a) c = (c = a)"

text \<open>
  Membership in a class \<^verbatim>\<open>[...]\<close>. With the flag \<^verbatim>\<open>i\<close> (first argument) a character
  is in the class when it or its ASCII case variant is: without the flag \<^verbatim>\<open>u\<close>
  a code unit from 128 on is never identified with an ASCII one.
\<close>

definition inClass :: "bool \<Rightarrow> citem list \<Rightarrow> char \<Rightarrow> bool" where
  "inClass ci cls c =
     (if ci then list_ex (\<lambda>i. inItem i (asciiLower c) \<or> inItem i (asciiUpper c)) cls
      else list_ex (\<lambda>i. inItem i c) cls)"

section \<open>sanitizeFileName\<close>

text \<open>
  \<^verbatim>\<open>
  function sanitizeFileName(name) {
      return name
          .replace(/[^a-z0-9_\-]/gi, '_')
          .replace(/_+/g, '_')
          .replace(/^_|_$/g, '')
          .substring(0, 50) || 'unnamed';
  }
  \<close>
\<close>

definition nameClass :: "citem list" where
  "nameClass = [Lower, Dig, Ch CHR ''_'', Ch CHR ''-'']"

text \<open>\<^verbatim>\<open>.replace(/[^a-z0-9_\-]/gi, '_')\<close>\<close>

definition replaceInvalid :: "string \<Rightarrow> string" where
  "replaceInvalid s = map (\<lambda>c. if \<not> inClass True nameClass c then CHR ''_'' else c) s"

text \<open>\<^verbatim>\<open>.replace(/_+/g, '_')\<close>: every run of underscores becomes one underscore.\<close>

fun collapseUnderscores :: "string \<Rightarrow> string" where
  "collapseUnderscores (a # b # cs) =
     (if a = CHR ''_'' \<and> b = CHR ''_'' then collapseUnderscores (b # cs)
      else a # collapseUnderscores (b # cs))"
| "collapseUnderscores cs = cs"

text \<open>
  \<^verbatim>\<open>.replace(/^_|_$/g, '')\<close>: the first alternative matches an underscore at index 0,
  the second an underscore at the last index of what is left to scan.
\<close>

definition stripLeading :: "string \<Rightarrow> string" where
  "stripLeading s = (case s of [] \<Rightarrow> [] | c # cs \<Rightarrow> if c = CHR ''_'' then cs else s)"

definition stripTrailing :: "string \<Rightarrow> string" where
  "stripTrailing s = (if s \<noteq> [] \<and> last s = CHR ''_'' then butlast s else s)"

definition trimUnderscores :: "string \<Rightarrow> string" where
  "trimUnderscores s = stripTrailing (stripLeading s)"

definition sanitizeFileName :: "string \<Rightarrow> string" where
  "sanitizeFileName name =
     (let s = substring0 50 (trimUnderscores (collapseUnderscores (replaceInvalid name)))
      in if s = [] then ''unnamed'' else s)"

text \<open>The characters a sanitized name is made of, and the absence of \<^verbatim>\<open>__\<close>.\<close>

definition nameChar :: "char \<Rightarrow> bool" where
  "nameChar c = (isUpper c \<or> isLower c \<or> isDigit c \<or> c = CHR ''_'' \<or> c = CHR ''-'')"

fun hasDoubleUnderscore :: "string \<Rightarrow> bool" where
  "hasDoubleUnderscore (a # b # cs) =
     ((a = CHR ''_'' \<and> b = CHR ''_'') \<or> hasDoubleUnderscore (b # cs))"
| "hasDoubleUnderscore cs = False"

section \<open>Regular expressions\<close>

text \<open>
  The fragment of JavaScript regular expressions that \<^verbatim>\<open>aiNaming.js\<close> uses: literals,
  alternatives of literals, character classes, greedy bounded repetition of a class,
  sequence, alternation, one capturing group and the word boundary \<^verbatim>\<open>\b\<close>.
\<close>

datatype rx =
    Lit string                          \<comment> \<open>literal text\<close>
  | AltLits "string list"               \<comment> \<open>\<^verbatim>\<open>(?:w1|w2|...)\<close>, tried from left to right\<close>
  | Set "citem list"                    \<comment> \<open>\<^verbatim>\<open>[...]\<close>, one character\<close>
  | Rep "citem list" nat "nat option"   \<comment> \<open>\<^verbatim>\<open>[...]{lo,hi}\<close>, greedy; no \<open>hi\<close> for \<^verbatim>\<open>*\<close> and \<^verbatim>\<open>+\<close>\<close>
  | Seq rx rx
  | Alt rx rx
  | Grp rx                              \<comment> \<open>the capturing group\<close>
  | WordB                               \<comment> \<open>\<^verbatim>\<open>\b\<close>\<close>

text \<open>
  A matcher state: the character before the current position (none at index 0), the
  text from the current position on, and what the capturing group holds.
\<close>

type_synonym mstate = "char option \<times> string \<times> string option"

text \<open>Two characters are the same under the flag \<^verbatim>\<open>i\<close> when their upper-case forms are.\<close>

definition chrEq :: "bool \<Rightarrow> char \<Rightarrow> char \<Rightarrow> bool" where
  "chrEq ci a c = (if ci then asciiUpper a = asciiUpper c else a = c)"

fun litMatch :: "bool \<Rightarrow> string \<Rightarrow> char option \<Rightarrow> string \<Rightarrow> (char option \<times> string) option" where
  "litMatch ci [] p r = Some (p, r)"
| "litMatch ci (a # as) p [] = None"
| "litMatch ci (a # as) p (c # cs) = (if chrEq ci a c then litMatch ci as (Some c) cs else None)"

text \<open>
  The matcher is a backtracking one, as the language defines it: every construct gets
  the continuation \<open>k\<close> that matches the rest of the pattern, and gives up a choice when
  the continuation fails.
\<close>

fun firstLit :: "bool \<Rightarrow> string list \<Rightarrow> mstate \<Rightarrow> (mstate \<Rightarrow> 'a option) \<Rightarrow> 'a option" where
  "firstLit ci [] s k = None"
| "firstLit ci (w # ws) (p, r, g) k =
     (case (case litMatch ci w p r of None \<Rightarrow> None | Some (p', r') \<Rightarrow> k (p', r', g)) of
        Some x \<Rightarrow> Some x
      | None \<Rightarrow> firstLit ci ws (p, r, g) k)"

text \<open>Greedy repetition: take one more character when allowed, come back to fewer on failure.\<close>

fun repMatch :: "bool \<Rightarrow> citem list \<Rightarrow> nat \<Rightarrow> nat option \<Rightarrow> nat \<Rightarrow> char option \<Rightarrow> string
    \<Rightarrow> (char option \<Rightarrow> string \<Rightarrow> 'a option) \<Rightarrow> 'a option" where
  "repMatch ci cls lo hi n p [] k = (if lo \<le> n then k p [] else None)"
| "repMatch ci cls lo hi n p (c # cs) k =
     (if inClass ci cls c \<and> (case hi of None \<Rightarrow> True | Some h \<Rightarrow> n < h)
      then (case repMatch ci cls lo hi (Suc n) (Some c) cs k of
              Some x \<Rightarrow> Some x
            | None \<Rightarrow> if lo \<le> n then k p (c # cs) else None)
      else if lo \<le> n then k p (c # cs) else None)"

definition isWordAt :: "char option \<Rightarrow> bool" where
  "isWordAt p = (case p of None \<Rightarrow> False | Some c \<Rightarrow> isWordChar c)"

definition firstChar :: "string \<Rightarrow> char option" where
  "firstChar r = (case r of [] \<Rightarrow> None | c # cs \<Rightarrow> Some c)"

fun rxMatch :: "bool \<Rightarrow> rx \<Rightarrow> mstate \<Rightarrow> (mstate \<Rightarrow> 'a option) \<Rightarrow> 'a option" where
  "rxMatch ci (Lit w) (p, r, g) k =
     (case litMatch ci w p r of None \<Rightarrow> None | Some (p', r') \<Rightarrow> k (p', r', g))"
| "rxMatch ci (AltLits ws) s k = firstLit ci ws s k"
| "rxMatch ci (Set cls) (p, r, g) k =
     (case r of [] \<Rightarrow> None | c # cs \<Rightarrow> if inClass ci cls c then k (Some c, cs, g) else None)"
| "rxMatch ci (Rep cls lo hi) (p, r, g) k = repMatch ci cls lo hi 0 p r (\<lambda>p' r'. k (p', r', g))"
| "rxMatch ci (Seq a b) s k = rxMatch ci a s (\<lambda>s'. rxMatch ci b s' k)"
| "rxMatch ci (Alt a b) s k =
     (case rxMatch ci a s k of Some x \<Rightarrow> Some x | None \<Rightarrow> rxMatch ci b s k)"
| "rxMatch ci (Grp a) (p, r, g) k =
     rxMatch ci a (p, r, g) (\<lambda>(p', r', g'). k (p', r', Some (take (length r - length r') r)))"
| "rxMatch ci WordB (p, r, g) k =
     (if isWordAt p \<noteq> isWordAt (firstChar r) then k (p, r, g) else None)"

text \<open>
  \<^verbatim>\<open>text.match(re)\<close> without the flag \<^verbatim>\<open>g\<close>: the match at the leftmost index that has
  one, as the matched text and the group. The second argument of \<open>rxSearch\<close> is the
  character before the index tried.
\<close>

fun rxSearch :: "bool \<Rightarrow> rx \<Rightarrow> char option \<Rightarrow> string \<Rightarrow> (string \<times> string option) option" where
  "rxSearch ci re p [] = rxMatch ci re (p, [], None) (\<lambda>(p', r', g). Some ([], g))"
| "rxSearch ci re p (c # cs) =
     (case rxMatch ci re (p, c # cs, None)
             (\<lambda>(p', r', g). Some (take (length (c # cs) - length r') (c # cs), g)) of
        Some x \<Rightarrow> Some x
      | None \<Rightarrow> rxSearch ci re (Some c) cs)"

definition rxTest :: "bool \<Rightarrow> rx \<Rightarrow> string \<Rightarrow> bool" where
  "rxTest ci re s = (rxSearch ci re None s \<noteq> None)"

text \<open>The text of group 1 of the first match; every pattern below fills its group.\<close>

definition rxGroup :: "bool \<Rightarrow> rx \<Rightarrow> string \<Rightarrow> string option" where
  "rxGroup ci re s = (case rxSearch ci re None s of None \<Rightarrow> None | Some (m, g) \<Rightarrow> g)"

text \<open>
  \<^verbatim>\<open>text.match(re)\<close> with the flag \<^verbatim>\<open>g\<close>: all matches from left to right, each search
  starting where the last match ended (one index further after an empty match). The last
  argument counts the indices still covered by the last match.
\<close>

fun rxMatchAll :: "bool \<Rightarrow> rx \<Rightarrow> char option \<Rightarrow> string \<Rightarrow> nat \<Rightarrow> string list" where
  "rxMatchAll ci re p [] skip =
     (case skip of
        Suc n \<Rightarrow> []
      | 0 \<Rightarrow> (case rxMatch ci re (p, [], None) (\<lambda>s'. Some []) of None \<Rightarrow> [] | Some m \<Rightarrow> [m]))"
| "rxMatchAll ci re p (c # cs) skip =
     (case skip of
        Suc n \<Rightarrow> rxMatchAll ci re (Some c) cs n
      | 0 \<Rightarrow>
         (case rxMatch ci re (p, c # cs, None)
                 (\<lambda>(p', r', g). Some (take (length (c # cs) - length r') (c # cs))) of
            None \<Rightarrow> rxMatchAll ci re (Some c) cs 0
          | Some m \<Rightarrow> m # rxMatchAll ci re (Some c) cs (length m - 1)))"

fun seqs :: "rx list \<Rightarrow> rx" where
  "seqs [] = Lit []"
| "seqs [r] = r"
| "seqs (r # rs) = Seq r (seqs rs)"

text \<open>\<^verbatim>\<open>\b(w1|w2|...)\b\<close>\<close>

definition wordAlt :: "string list \<Rightarrow> rx" where
  "wordAlt ws = seqs [WordB, AltLits ws, WordB]"

section \<open>extractKeywords\<close>

text \<open>
  \<^verbatim>\<open>
  const words = text.toLowerCase().match(/\b[a-z]+\b/g) || [];
  const wordCount = {};
  words.forEach(word => {
      if (word.length > 3 && !stopWords.has(word)) {
          wordCount[word] = (wordCount[word] || 0) + 1;
      }
  });
  const keywords = Object.entries(wordCount)
      .sort((a, b) => b[1] - a[1]).slice(0, 5).map(([word]) => word);
  \<close>
\<close>

definition stopWords :: "string list" where
  "stopWords =
     [''the'', ''is'', ''at'', ''which'', ''on'', ''a'', ''an'', ''and'', ''or'', ''but'',
      ''in'', ''with'', ''to'', ''for'', ''of'', ''as'', ''by'', ''that'', ''this'',
      ''it'', ''from'', ''be'', ''are'', ''was'', ''were'', ''been'', ''have'', ''has'',
      ''had'', ''do'', ''does'', ''did'', ''will'', ''would'', ''could'', ''should'',
      ''may'', ''might'', ''can'', ''so'', ''if'', ''than'', ''all'', ''any'', ''some'']"

definition wordRx :: rx where
  "wordRx = seqs [WordB, Rep [Lower] 1 None, WordB]"

definition matchWords :: "string \<Rightarrow> string list" where
  "matchWords text = rxMatchAll False wordRx None (toLowerCase text) 0"

text \<open>
  \<^verbatim>\<open>wordCount\<close> is a plain object: its own properties, in the order they were added
  (the keys are words of letters, never array indices), and behind them the properties
  it inherits from \<^verbatim>\<open>Object.prototype\<close>. The only inherited property whose name is a word
  of lower-case letters is \<^verbatim>\<open>constructor\<close>, the function \<^verbatim>\<open>Object\<close>. A property
  value is a number, a string, or that function.
\<close>

datatype jsval = Num nat | Str string | ObjectCtor

type_synonym jsobject = "(string \<times> jsval) list"

text \<open>\<^verbatim>\<open>obj[w]\<close>; \<open>None\<close> is \<^verbatim>\<open>undefined\<close>.\<close>

definition getProp :: "jsobject \<Rightarrow> string \<Rightarrow> jsval option" where
  "getProp obj w =
     (case map_of obj w of
        Some v \<Rightarrow> Some v
      | None \<Rightarrow> if w = ''constructor'' then Some ObjectCtor else None)"

text \<open>\<^verbatim>\<open>obj[w] = v\<close>: an own property keeps its place, a new one goes to the end.\<close>

fun setProp :: "jsobject \<Rightarrow> string \<Rightarrow> jsval \<Rightarrow> jsobject" where
  "setProp [] w v = [(w, v)]"
| "setProp ((w', v') # obj) w v =
     (if w' = w then (w, v) # obj else (w', v') # setProp obj w v)"

text \<open>\<^verbatim>\<open>x || 0\<close>: \<^verbatim>\<open>undefined\<close>, \<^verbatim>\<open>0\<close> and \<^verbatim>\<open>""\<close> are falsy.\<close>

fun orZero :: "jsval option \<Rightarrow> jsval" where
  "orZero None = Num 0"
| "orZero (Some (Num n)) = Num n"
| "orZero (Some (Str s)) = (if s = [] then Num 0 else Str s)"
| "orZero (Some ObjectCtor) = ObjectCtor"

text \<open>\<^verbatim>\<open>x + 1\<close>: addition on numbers, concatenation with \<^verbatim>\<open>"1"\<close> otherwise.\<close>

fun plusOne :: "jsval \<Rightarrow> jsval" where
  "plusOne (Num n) = Num (Suc n)"
| "plusOne (Str s) = Str (s @ ''1'')"
| "plusOne ObjectCtor = Str ''function Object() { [native code] }1''"

definition countWord :: "jsobject \<Rightarrow> string \<Rightarrow> jsobject" where
  "countWord wordCount word =
     (if length word > 3 \<and> word \<notin> set stopWords
      then setProp wordCount word (plusOne (orZero (getProp wordCount word)))
      else wordCount)"

text \<open>
  \<^verbatim>\<open>b[1] - a[1]\<close>; \<open>None\<close> is \<^verbatim>\<open>NaN\<close>, which is what a string that is not a numeral
  gives (every string \<open>plusOne\<close> builds starts with \<^verbatim>\<open>function\<close>).
\<close>

fun jsMinus :: "jsval \<Rightarrow> jsval \<Rightarrow> int option" where
  "jsMinus (Num x) (Num y) = Some (int x - int y)"
| "jsMinus x y = None"

definition compareFn :: "string \<times> jsval \<Rightarrow> string \<times> jsval \<Rightarrow> int option" where
  "compareFn a b = jsMinus (snd b) (snd a)"

text \<open>
  \<^verbatim>\<open>Array.prototype.sort\<close> with a comparator. The sort is stable, and when the comparator
  is a consistent order, as \<^verbatim>\<open>b[1] - a[1]\<close> is when every count is a number, the language
  fixes the result: it is the array that every stable sort gives, the insertion sort below
  among them. When the comparator gives \<^verbatim>\<open>NaN\<close> for some pair, which takes the word
  \<^verbatim>\<open>constructor\<close> among the keys, the language leaves the order to the engine. One
  comparison that gives \<^verbatim>\<open>NaN\<close> counts as 0, and for two keys the array below is the one
  V8 gives; for three keys or more the order depends on which pairs the engine compares,
  and the insertion sort below is not a model of it. The properties of the order of the
  keywords are stated for the texts without the word \<^verbatim>\<open>constructor\<close>, and for one text of
  two keys with it.
\<close>

definition sortCompare :: "('a \<Rightarrow> 'a \<Rightarrow> int option) \<Rightarrow> 'a \<Rightarrow> 'a \<Rightarrow> int" where
  "sortCompare cmp x y = (case cmp x y of None \<Rightarrow> 0 | Some v \<Rightarrow> v)"

fun insertSorted :: "('a \<Rightarrow> 'a \<Rightarrow> int option) \<Rightarrow> 'a \<Rightarrow> 'a list \<Rightarrow> 'a list" where
  "insertSorted cmp x [] = [x]"
| "insertSorted cmp x (y # ys) =
     (if sortCompare cmp x y \<le> 0 then x # y # ys else y # insertSorted cmp x ys)"

definition jsSort :: "('a \<Rightarrow> 'a \<Rightarrow> int option) \<Rightarrow> 'a list \<Rightarrow> 'a list" where
  "jsSort cmp xs = foldr (insertSorted cmp) xs []"

definition wordCounts :: "string \<Rightarrow> jsobject" where
  "wordCounts text = foldl countWord [] (matchWords text)"

definition extractKeywords :: "string \<Rightarrow> string list" where
  "extractKeywords text = map fst (take 5 (jsSort compareFn (wordCounts text)))"

section \<open>detectDocumentType\<close>

definition invoiceRx :: rx where
  "invoiceRx = wordAlt [''invoice'', ''bill'', ''billing'', ''payment due'', ''amount due'',
     ''total amount'', ''subtotal'']"

definition receiptRx :: rx where
  "receiptRx = wordAlt [''receipt'', ''paid'', ''transaction'', ''purchase'', ''sale'']"

text \<open>\<^verbatim>\<open>/\$\d+|\d+\.\d{2}/\<close>\<close>

definition moneyRx :: rx where
  "moneyRx = Alt (seqs [Lit ''$'', Rep [Dig] 1 None])
                 (seqs [Rep [Dig] 1 None, Lit ''.'', Rep [Dig] 2 (Some 2)])"

definition contractRx :: rx where
  "contractRx = wordAlt [''contract'', ''agreement'', ''terms and conditions'', ''hereby agree'',
     ''party'', ''parties'']"

definition letterRx :: rx where
  "letterRx = wordAlt [''dear '', ''sincerely'', ''regards'', ''yours truly'', ''subject:'']"

definition reportRx :: rx where
  "reportRx = wordAlt [''report'', ''summary'', ''analysis'', ''findings'', ''conclusion'',
     ''executive summary'']"

definition certificateRx :: rx where
  "certificateRx = wordAlt [''certificate'', ''certify'', ''awarded'', ''completion'',
     ''achievement'']"

definition formRx :: rx where
  "formRx = wordAlt [''form'', ''application'', ''questionnaire'', ''survey'']"

definition formFieldRx :: rx where
  "formFieldRx = wordAlt [''name'', ''address'', ''date'', ''signature'']"

definition memoRx :: rx where
  "memoRx = wordAlt [''memo'', ''memorandum'', ''note'', ''to:'', ''from:'', ''re:'']"

definition idRx :: rx where
  "idRx = wordAlt [''passport'', ''identification'', ''id card'', ''driver license'', ''permit'']"

definition ticketRx :: rx where
  "ticketRx = wordAlt [''ticket'', ''boarding pass'', ''admission'', ''entry'']"

definition detectDocumentType :: "string \<Rightarrow> string" where
  "detectDocumentType textLower =
     (if rxTest False invoiceRx textLower then ''invoice''
      else if rxTest False receiptRx textLower \<and> rxTest False moneyRx textLower then ''receipt''
      else if rxTest False contractRx textLower then ''contract''
      else if rxTest False letterRx textLower then ''letter''
      else if rxTest False reportRx textLower then ''report''
      else if rxTest False certificateRx textLower then ''certificate''
      else if rxTest False formRx textLower \<and> rxTest False formFieldRx textLower then ''form''
      else if rxTest False memoRx textLower then ''memo''
      else if rxTest False idRx textLower then ''id''
      else if rxTest False ticketRx textLower then ''ticket''
      else ''document'')"

section \<open>extractContext\<close>

text \<open>The object \<^verbatim>\<open>context\<close> of the source; a field that was never set is \<open>None\<close>.\<close>

record extracted_context =
  company :: "string option"
  subject :: "string option"
  date :: "string option"
  amount :: "string option"

text \<open>\<^verbatim>\<open>/(?:from|company|vendor)[\s:]+([A-Z][A-Za-z\s&,\.]{2,30})/i\<close>\<close>

definition companyRx :: rx where
  "companyRx = seqs [AltLits [''from'', ''company'', ''vendor''], Rep [WS, Ch CHR '':''] 1 None,
     Grp (seqs [Set [Upper],
                Rep [Upper, Lower, WS, Ch CHR ''&'', Ch CHR '','', Ch CHR ''.''] 2 (Some 30)])]"

text \<open>\<^verbatim>\<open>/(?:subject|re)[\s:]+([A-Za-z\s]{3,40})/i\<close>\<close>

definition subjectRx :: rx where
  "subjectRx = seqs [AltLits [''subject'', ''re''], Rep [WS, Ch CHR '':''] 1 None,
     Grp (Rep [Upper, Lower, WS] 3 (Some 40))]"

text \<open>
  \<^verbatim>\<open>/\b(\d{1,2}[\/\-]\d{1,2}[\/\-]\d{2,4}|\d{4}[\/\-]\d{1,2}[\/\-]\d{1,2}|(?:Jan|Feb|Mar|Apr|May|Jun|Jul|Aug|Sep|Oct|Nov|Dec)[a-z]*\s+\d{1,2},?\s+\d{4})\b/i\<close>
\<close>

definition dateSep :: "citem list" where
  "dateSep = [Ch CHR ''/'', Ch CHR ''-'']"

definition dateRx :: rx where
  "dateRx = seqs [WordB,
     Grp (Alt (seqs [Rep [Dig] 1 (Some 2), Set dateSep, Rep [Dig] 1 (Some 2), Set dateSep,
                     Rep [Dig] 2 (Some 4)])
         (Alt (seqs [Rep [Dig] 4 (Some 4), Set dateSep, Rep [Dig] 1 (Some 2), Set dateSep,
                     Rep [Dig] 1 (Some 2)])
              (seqs [AltLits [''Jan'', ''Feb'', ''Mar'', ''Apr'', ''May'', ''Jun'', ''Jul'', ''Aug'',
                              ''Sep'', ''Oct'', ''Nov'', ''Dec''],
                     Rep [Lower] 0 None, Rep [WS] 1 None, Rep [Dig] 1 (Some 2),
                     Rep [Ch CHR '',''] 0 (Some 1), Rep [WS] 1 None, Rep [Dig] 4 (Some 4)]))),
     WordB]"

text \<open>\<^verbatim>\<open>/(?:total|amount|sum)[\s:$]*(\d+[\.,]\d{2})/i\<close>\<close>

definition amountRx :: rx where
  "amountRx = seqs [AltLits [''total'', ''amount'', ''sum''],
     Rep [WS, Ch CHR '':'', Ch CHR ''$''] 0 None,
     Grp (seqs [Rep [Dig] 1 None, Set [Ch CHR ''.'', Ch CHR '',''], Rep [Dig] 2 (Some 2)])]"

text \<open>\<^verbatim>\<open>.replace(/[\/\s,]/g, '-')\<close>\<close>

definition dashDate :: "string \<Rightarrow> string" where
  "dashDate s = map (\<lambda>c. if inClass False [Ch CHR ''/'', WS, Ch CHR '',''] c then CHR ''-'' else c) s"

text \<open>\<^verbatim>\<open>.replace(',', '')\<close>: a string pattern replaces its first occurrence only.\<close>

fun removeFirstComma :: "string \<Rightarrow> string" where
  "removeFirstComma [] = []"
| "removeFirstComma (c # cs) = (if c = CHR '','' then cs else c # removeFirstComma cs)"

text \<open>A context field counts as present when it is set and not the empty string.\<close>

definition truthy :: "string option \<Rightarrow> bool" where
  "truthy x = (case x of None \<Rightarrow> False | Some s \<Rightarrow> s \<noteq> [])"

definition newline :: char where
  "newline = CHR 0x0A"

definition extractContext :: "string \<Rightarrow> string \<Rightarrow> string \<Rightarrow> extracted_context" where
  "extractContext text textLower docType =
     (let ctx = \<lparr>company = None, subject = None, date = None, amount = None\<rparr>;
          ctx = (case rxGroup True companyRx text of
                       None \<Rightarrow> ctx
                     | Some g \<Rightarrow> ctx\<lparr>company := Some (substring0 20 (sanitizeFileName (trim g)))\<rparr>);
          ctx = (case rxGroup True subjectRx text of
                       None \<Rightarrow> ctx
                     | Some g \<Rightarrow> ctx\<lparr>subject := Some (substring0 20 (sanitizeFileName (trim g)))\<rparr>);
          ctx = (case rxGroup True dateRx text of
                       None \<Rightarrow> ctx
                     | Some g \<Rightarrow> ctx\<lparr>date := Some (dashDate g)\<rparr>);
          ctx = (if docType = ''invoice'' \<or> docType = ''receipt''
                     then (case rxGroup True amountRx text of
                             None \<Rightarrow> ctx
                           | Some g \<Rightarrow> ctx\<lparr>amount := Some (removeFirstComma g)\<rparr>)
                     else ctx)
      in if \<not> truthy (subject ctx) \<and> \<not> truthy (company ctx)
         then (case filter (\<lambda>l. length (trim l) > 3) (splitOn newline text) of
                 [] \<Rightarrow> ctx
               | l # ls \<Rightarrow>
                   (let firstLine = trim l
                    in if length firstLine < 50 \<and> length firstLine > 3
                       then ctx\<lparr>subject := Some (substring0 30 (sanitizeFileName firstLine))\<rparr>
                       else ctx))
         else ctx)"

section \<open>identifyTopic\<close>

text \<open>\<^verbatim>\<open>if (x) nameParts.push(x)\<close>\<close>

definition pushIf :: "string option \<Rightarrow> string list" where
  "pushIf x = (case x of None \<Rightarrow> [] | Some s \<Rightarrow> if s \<noteq> [] then [s] else [])"

definition identifyTopic :: "string list \<Rightarrow> string \<Rightarrow> string" where
  "identifyTopic keywords text =
     (let textLower = toLowerCase text;
          docType = detectDocumentType textLower;
          ctx = extractContext text textLower docType;
          nameParts = (if docType \<noteq> ''document'' then [docType] else [])
                      @ pushIf (company ctx) @ pushIf (subject ctx)
                      @ pushIf (date ctx) @ pushIf (amount ctx)
      in if length nameParts > 0 then join ''_'' (take 4 nameParts)
         else if length keywords > 0 then join ''_'' (take 3 keywords)
         else (let firstWords =
                     join ''_'' (take 3 (filter (\<lambda>word. length word > 3) (splitOn CHR '' '' text)))
               in if firstWords \<noteq> [] then toLowerCase firstWords else ''document''))"

section \<open>generateAIFileName\<close>

text \<open>\<^verbatim>\<open>.replace(/\s+/g, ' ')\<close>: every run of white space becomes one space.\<close>

fun squashSpaces :: "string \<Rightarrow> string" where
  "squashSpaces [] = []"
| "squashSpaces [c] = (if isSpace c then '' '' else [c])"
| "squashSpaces (a # b # cs) =
     (if isSpace a \<and> isSpace b then squashSpaces (b # cs)
      else (if isSpace a then CHR '' '' else a) # squashSpaces (b # cs))"

text \<open>\<^verbatim>\<open>extractedText.replace(/\n/g, ' ').replace(/\s+/g, ' ').trim()\<close>\<close>

definition cleanText :: "string \<Rightarrow> string" where
  "cleanText extractedText =
     trim (squashSpaces (map (\<lambda>c. if c = newline then CHR '' '' else c) extractedText))"

text \<open>
  The name \<^verbatim>\<open>generateAIFileName\<close> builds, before it appends the time stamp and the
  extension: \<^verbatim>\<open>empty_document\<close> for an empty or white-space text, the sanitized topic
  otherwise.
\<close>

definition classifyAndName :: "string \<Rightarrow> string" where
  "classifyAndName extractedText =
     (if extractedText = [] \<or> length (trim extractedText) = 0 then ''empty_document''
      else (let cleanText = cleanText extractedText;
                keywords = extractKeywords cleanText;
                topic = identifyTopic keywords cleanText
            in sanitizeFileName topic))"

text \<open>
  \<^verbatim>\<open>generateAIFileName\<close>. The clock is an input: \<open>now\<close> is the text of \<^verbatim>\<open>Date.now()\<close>
  and \<open>isoString\<close> the text of \<^verbatim>\<open>new Date().toISOString()\<close>.
\<close>

definition timestampOf :: "string \<Rightarrow> string" where
  "timestampOf isoString =
     substring0 19 (map (\<lambda>c. if c = CHR '':'' \<or> c = CHR ''.'' then CHR ''-'' else c) isoString)"

definition generateAIFileName :: "string \<Rightarrow> string \<Rightarrow> string \<Rightarrow> string \<Rightarrow> string" where
  "generateAIFileName extractedText originalExtension now isoString =
     (if extractedText = [] \<or> length (trim extractedText) = 0
      then ''empty_document_'' @ now @ originalExtension
      else (let cleanText = cleanText extractedText;
                keywords = extractKeywords cleanText;
                topic = identifyTopic keywords cleanText;
                timestamp = timestampOf isoString
            in sanitizeFileName topic @ ''_'' @ timestamp @ originalExtension))"

section \<open>Name patterns\<close>

text \<open>
  The pattern \<^verbatim>\<open>^[a-z0-9_-]{1,50}$\<close> of the specification, and the pattern
  \<^verbatim>\<open>^[A-Za-z0-9_-]{1,50}$\<close>.
\<close>

definition lowerNameChar :: "char \<Rightarrow> bool" where
  "lowerNameChar c = (isLower c \<or> isDigit c \<or> c = CHR ''_'' \<or> c = CHR ''-'')"

definition specNamePattern :: "string \<Rightarrow> bool" where
  "specNamePattern s = (1 \<le> length s \<and> length s \<le> 50 \<and> list_all lowerNameChar s)"

definition mixedCaseNamePattern :: "string \<Rightarrow> bool" where
  "mixedCaseNamePattern s = (1 \<le> length s \<and> length s \<le> 50 \<and> list_all nameChar s)"

section \<open>The classifier as a list of rules\<close>

text \<open>
  The specification's reading of the classifier: an ordered list of rules, each a label
  and a test, of which the first one that matches gives the label, and \<^verbatim>\<open>document\<close>
  when none does.
\<close>

definition classifierRules :: "(string \<times> (string \<Rightarrow> bool)) list" where
  "classifierRules =
     [(''invoice'', rxTest False invoiceRx),
      (''receipt'', \<lambda>t. rxTest False receiptRx t \<and> rxTest False moneyRx t),
      (''contract'', rxTest False contractRx),
      (''letter'', rxTest False letterRx),
      (''report'', rxTest False reportRx),
      (''certificate'', rxTest False certificateRx),
      (''form'', \<lambda>t. rxTest False formRx t \<and> rxTest False formFieldRx t),
      (''memo'', rxTest False memoRx),
      (''id'', rxTest False idRx),
      (''ticket'', rxTest False ticketRx)]"

fun firstMatch :: "(string \<times> (string \<Rightarrow> bool)) list \<Rightarrow> string \<Rightarrow> string" where
  "firstMatch [] t = ''document''"
| "firstMatch ((label, test) # rules) t = (if test t then label else firstMatch rules t)"

section \<open>The invoice scenario\<close>

text \<open>
  The text \<^verbatim>\<open>"INVOICE\nFrom: Acme Corp\nTotal: $123.45\n01/02/2023"\<close>.
\<close>

definition scenarioText :: string where
  "scenarioText = ''INVOICE'' @ [newline] @ ''From: Acme Corp'' @ [newline]
     @ ''Total: $123.45'' @ [newline] @ ''01/02/2023''"

section \<open>database.js: tables\<close>

text \<open>
  A time stamp is the text \<^verbatim>\<open>datetime('now')\<close> gives, \<^verbatim>\<open>YYYY-MM-DD HH:MM:SS\<close>, modelled
  as the number of whole seconds since 1970-01-01 00:00:00; the clock is an argument
  \<open>now\<close> of every statement that reads it. \<^verbatim>\<open>NULL\<close> is \<open>None\<close>.
\<close>

type_synonym timestamp = int

text \<open>
  A value of a \<^verbatim>\<open>REAL\<close> column is a double that SQLite computes. The model keeps the
  expression it is computed by and says nothing about its rounding: the 0 of
  \<^verbatim>\<open>DEFAULT 0\<close> and \<^verbatim>\<open>COALESCE(..., 0)\<close>; \<open>Elapsed start now\<close>, the double that
  \<^verbatim>\<open>(julianday(now) - julianday(start)) * 86400\<close> gives for the two time stamps, which is
  about the seconds between them; and \<open>SumOf vs\<close>, the double \<^verbatim>\<open>SUM\<close> gives for the
  values \<open>vs\<close>, added in the order of the rows.
\<close>

datatype sqlreal = RealZero | Elapsed timestamp timestamp | SumOf "sqlreal list"

text \<open>
  The whole seconds an expression stands for when it is evaluated without rounding. The
  double that SQLite stores is near this number and need not equal it; the number serves
  to tell apart two values that differ by seconds.
\<close>

fun nominalSeconds :: "sqlreal \<Rightarrow> int" where
  "nominalSeconds RealZero = 0"
| "nominalSeconds (Elapsed start now) = now - start"
| "nominalSeconds (SumOf vs) = sum_list (map nominalSeconds vs)"

text \<open>A row of \<^verbatim>\<open>dbt2_user\<close>; the columns \<^verbatim>\<open>id\<close> and the two time stamps carry the prefix \<open>u_\<close>.\<close>

record user_row =
  u_id :: nat
  user_queue_position :: string
  total_files_uploaded :: int
  total_files_treated :: int
  total_files_not_treated :: int
  u_extraction_start_timestamp :: "timestamp option"
  u_extraction_end_timestamp :: "timestamp option"
  total_processing_time :: sqlreal

text \<open>A row of \<^verbatim>\<open>dbt3_file\<close>; columns that \<^verbatim>\<open>dbt2_user\<close> has too carry the prefix \<open>f_\<close>.\<close>

record file_row =
  f_id :: nat
  file_name :: string
  f_user_queue_position :: string
  ai_file_name :: string
  file_type :: string
  output_file_type :: string
  detected_language :: "string option"
  f_extraction_start_timestamp :: "timestamp option"
  f_extraction_end_timestamp :: "timestamp option"
  file_processing_time :: "sqlreal option"
  extraction_state :: string

text \<open>
  The two tables with the rows in the order they were inserted, and for each table the
  largest \<^verbatim>\<open>id\<close> that \<^verbatim>\<open>AUTOINCREMENT\<close> has given out. The foreign key of \<^verbatim>\<open>dbt3_file\<close>
  is not enforced: the connection never switches \<^verbatim>\<open>foreign_keys\<close> on. The tables
  \<^verbatim>\<open>dbt1_developer\<close> and \<^verbatim>\<open>dbt4_notification\<close> are left out: no statement below reads
  or writes them.
\<close>

record database =
  dbt2_user :: "user_row list"
  dbt2_seq :: nat
  dbt3_file :: "file_row list"
  dbt3_seq :: nat

definition emptyDb :: database where
  "emptyDb = \<lparr>dbt2_user = [], dbt2_seq = 0, dbt3_file = [], dbt3_seq = 0\<rparr>"

text \<open>
  What a statement can report to its callback: a failure of the storage, which is an
  input of the model (the argument \<open>fault\<close> of every statement, \<open>None\<close> when the storage
  works), or the violation of the \<^verbatim>\<open>UNIQUE\<close> constraint on \<^verbatim>\<open>user_queue_position\<close>.
\<close>

datatype db_error = StorageError | UniqueViolation

section \<open>database.js: dbHelpers\<close>

text \<open>The decimal text of a number, as \<^verbatim>\<open>'user' + (row.count + 1)\<close> builds it.\<close>

function showNat :: "nat \<Rightarrow> string" where
  "showNat n = (if n < 10 then [digitChars ! n] else showNat (n div 10) @ [digitChars ! (n mod 10)])"
  by pat_completeness auto
termination
  by (relation "measure id") auto

declare showNat.simps [simp del]

text \<open>
  \<^verbatim>\<open>
  getNextUserPosition: (callback) => {
      db.get('SELECT COUNT(*) as count FROM dbt2_user', (err, row) => {
          if (err) { callback(err, null); }
          else { const nextPosition = 'user' + (row.count + 1); callback(null, nextPosition); }
      });
  }
  \<close>
  The statement reads and changes nothing.
\<close>

definition getNextUserPosition :: "db_error option \<Rightarrow> database \<Rightarrow> db_error + string" where
  "getNextUserPosition fault db =
     (case fault of
        Some err \<Rightarrow> Inl err
      | None \<Rightarrow> Inr (''user'' @ showNat (length (dbt2_user db) + 1)))"

text \<open>\<^verbatim>\<open>INSERT INTO dbt2_user (user_queue_position) VALUES (?)\<close>; the callback gets \<^verbatim>\<open>lastID\<close>.\<close>

definition createUser :: "string \<Rightarrow> db_error option \<Rightarrow> database \<Rightarrow> (db_error + nat) \<times> database" where
  "createUser userPosition fault db =
     (case fault of
        Some err \<Rightarrow> (Inl err, db)
      | None \<Rightarrow>
          if userPosition \<in> set (map user_queue_position (dbt2_user db))
          then (Inl UniqueViolation, db)
          else (let lastID = dbt2_seq db + 1
                in (Inr lastID,
                    db\<lparr>dbt2_user := dbt2_user db @
                         [\<lparr>u_id = lastID, user_queue_position = userPosition,
                           total_files_uploaded = 0, total_files_treated = 0,
                           total_files_not_treated = 0, u_extraction_start_timestamp = None,
                           u_extraction_end_timestamp = None, total_processing_time = RealZero\<rparr>],
                       dbt2_seq := lastID\<rparr>)))"

text \<open>The argument \<^verbatim>\<open>fileData\<close> of \<^verbatim>\<open>addFile\<close>; its fields carry the prefix \<open>fd_\<close>.\<close>

record file_data =
  fd_file_name :: string
  fd_user_queue_position :: string
  fd_ai_file_name :: string
  fd_file_type :: string
  fd_output_file_type :: string

text \<open>
  \<^verbatim>\<open>
  INSERT INTO dbt3_file (file_name, user_queue_position, ai_file_name, file_type,
      output_file_type, extraction_start_timestamp, extraction_state)
  VALUES (?, ?, ?, ?, ?, datetime('now'), 'processing')
  \<close>
  The columns the statement does not name are \<^verbatim>\<open>NULL\<close>.
\<close>

definition addFile :: "file_data \<Rightarrow> timestamp \<Rightarrow> db_error option \<Rightarrow> database
    \<Rightarrow> (db_error + nat) \<times> database" where
  "addFile fileData now fault db =
     (case fault of
        Some err \<Rightarrow> (Inl err, db)
      | None \<Rightarrow>
          (let lastID = dbt3_seq db + 1
           in (Inr lastID,
               db\<lparr>dbt3_file := dbt3_file db @
                    [\<lparr>f_id = lastID, file_name = fd_file_name fileData,
                      f_user_queue_position = fd_user_queue_position fileData,
                      ai_file_name = fd_ai_file_name fileData,
                      file_type = fd_file_type fileData,
                      output_file_type = fd_output_file_type fileData,
                      detected_language = None,
                      f_extraction_start_timestamp = Some now,
                      f_extraction_end_timestamp = None,
                      file_processing_time = None,
                      extraction_state = ''processing''\<rparr>],
                  dbt3_seq := lastID\<rparr>)))"

text \<open>
  \<^verbatim>\<open>
  UPDATE dbt3_file
  SET detected_language = ?,
      extraction_end_timestamp = datetime('now'),
      file_processing_time =
        (julianday(datetime('now')) - julianday(extraction_start_timestamp)) * 86400,
      extraction_state = ?
  WHERE id = ?
  \<close>
\<close>

definition completeRow :: "string \<Rightarrow> string \<Rightarrow> timestamp \<Rightarrow> file_row \<Rightarrow> file_row" where
  "completeRow detectedLanguage state now r =
     r\<lparr>detected_language := Some detectedLanguage,
       f_extraction_end_timestamp := Some now,
       file_processing_time :=
         (case f_extraction_start_timestamp r of
            None \<Rightarrow> None
          | Some start \<Rightarrow> Some (Elapsed start now)),
       extraction_state := state\<rparr>"

definition updateFileAfterOCR :: "nat \<Rightarrow> string \<Rightarrow> string \<Rightarrow> timestamp \<Rightarrow> db_error option
    \<Rightarrow> database \<Rightarrow> db_error option \<times> database" where
  "updateFileAfterOCR fileId detectedLanguage state now fault db =
     (case fault of
        Some err \<Rightarrow> (Some err, db)
      | None \<Rightarrow>
          (None,
           db\<lparr>dbt3_file :=
                map (\<lambda>r. if f_id r = fileId then completeRow detectedLanguage state now r else r)
                  (dbt3_file db)\<rparr>))"

text \<open>
  \<^verbatim>\<open>UPDATE dbt3_file SET ai_file_name = ? WHERE id = ?\<close>, the statement that the upload
  routes of \<^verbatim>\<open>server.js\<close> run themselves, with no helper of \<^verbatim>\<open>dbHelpers\<close>.
\<close>

definition setAiFileName :: "nat \<Rightarrow> string \<Rightarrow> db_error option \<Rightarrow> database
    \<Rightarrow> db_error option \<times> database" where
  "setAiFileName fileId aiFileName fault db =
     (case fault of
        Some err \<Rightarrow> (Some err, db)
      | None \<Rightarrow>
          (None,
           db\<lparr>dbt3_file :=
                map (\<lambda>r. if f_id r = fileId then r\<lparr>ai_file_name := aiFileName\<rparr> else r)
                  (dbt3_file db)\<rparr>))"

text \<open>An \<^verbatim>\<open>UPDATE dbt2_user SET ... WHERE user_queue_position = ?\<close>.\<close>

definition updateUsers :: "string \<Rightarrow> (user_row \<Rightarrow> user_row) \<Rightarrow> database \<Rightarrow> database" where
  "updateUsers userPosition f db =
     db\<lparr>dbt2_user := map (\<lambda>r. if user_queue_position r = userPosition then f r else r)
                         (dbt2_user db)\<rparr>"

text \<open>\<^verbatim>\<open>SET total_files_uploaded = total_files_uploaded + 1\<close>\<close>

definition updateUserStats :: "string \<Rightarrow> db_error option \<Rightarrow> database \<Rightarrow> db_error option \<times> database" where
  "updateUserStats userPosition fault db =
     (case fault of
        Some err \<Rightarrow> (Some err, db)
      | None \<Rightarrow>
          (None, updateUsers userPosition
                   (\<lambda>r. r\<lparr>total_files_uploaded := total_files_uploaded r + 1\<rparr>) db))"

text \<open>\<^verbatim>\<open>SET extraction_start_timestamp = datetime('now')\<close>\<close>

definition updateUserExtractionStart :: "string \<Rightarrow> timestamp \<Rightarrow> db_error option \<Rightarrow> database
    \<Rightarrow> db_error option \<times> database" where
  "updateUserExtractionStart userPosition now fault db =
     (case fault of
        Some err \<Rightarrow> (Some err, db)
      | None \<Rightarrow>
          (None, updateUsers userPosition (\<lambda>r. r\<lparr>u_extraction_start_timestamp := Some now\<rparr>) db))"

text \<open>
  The helpers below issue more than one statement, each from the callback of the one
  before, with no transaction around them. The storage runs one statement at a time, and
  between two statements of one helper it can run statements of other requests. What
  those do to the database is an argument of the helper, an \<open>interference\<close>; it is
  \<open>alone\<close> when the helper runs with nothing in between.
\<close>

type_synonym interference = "database \<Rightarrow> database"

definition alone :: interference where
  "alone db = db"

text \<open>
  \<^verbatim>\<open>
  SELECT COALESCE(SUM(file_processing_time), 0) as total FROM dbt3_file
  WHERE user_queue_position = ? AND extraction_state = 'success'
  \<close>
  \<^verbatim>\<open>SUM\<close> skips the rows whose value is \<^verbatim>\<open>NULL\<close> and is \<^verbatim>\<open>NULL\<close> itself when no
  value is left.
\<close>

definition selectTotal :: "string \<Rightarrow> database \<Rightarrow> sqlreal" where
  "selectTotal userPosition db =
     (case map the
             (filter (\<lambda>v. v \<noteq> None)
                (map file_processing_time
                   (filter (\<lambda>r. f_user_queue_position r = userPosition
                                 \<and> extraction_state r = ''success'')
                      (dbt3_file db)))) of
        [] \<Rightarrow> RealZero
      | v # vs \<Rightarrow> SumOf (v # vs))"

text \<open>
  \<^verbatim>\<open>updateUserTotalProcessingTime\<close>: the \<^verbatim>\<open>SELECT\<close> above, then, from its callback,
  \<^verbatim>\<open>UPDATE dbt2_user SET total_processing_time = ? WHERE user_queue_position = ?\<close> with
  the total that was read. \<open>between\<close> is what happens between the two.
\<close>

definition updateUserTotalProcessingTime :: "string \<Rightarrow> db_error option \<Rightarrow> db_error option
    \<Rightarrow> interference \<Rightarrow> database \<Rightarrow> db_error option \<times> database" where
  "updateUserTotalProcessingTime userPosition fault1 fault2 between db =
     (case fault1 of
        Some err \<Rightarrow> (Some err, db)
      | None \<Rightarrow>
          (let total = selectTotal userPosition db;
               db' = between db
           in case fault2 of
                Some err \<Rightarrow> (Some err, db')
              | None \<Rightarrow>
                  (None, updateUsers userPosition (\<lambda>r. r\<lparr>total_processing_time := total\<rparr>) db')))"

text \<open>
  \<^verbatim>\<open>
  SET extraction_end_timestamp = datetime('now'),
      total_files_treated = total_files_treated + ?,
      total_files_not_treated = total_files_not_treated + ?
  \<close>
  and, from the callback of this statement when it did not fail,
  \<^verbatim>\<open>updateUserTotalProcessingTime\<close>. \<open>between1\<close> is what happens between the
  \<^verbatim>\<open>UPDATE\<close> of the counters and the \<^verbatim>\<open>SELECT\<close>, \<open>between2\<close> what happens between the
  \<^verbatim>\<open>SELECT\<close> and the \<^verbatim>\<open>UPDATE\<close> of the total.
\<close>

definition addOutcome :: "int \<Rightarrow> int \<Rightarrow> timestamp \<Rightarrow> user_row \<Rightarrow> user_row" where
  "addOutcome treated notTreated now r =
     r\<lparr>u_extraction_end_timestamp := Some now,
       total_files_treated := total_files_treated r + treated,
       total_files_not_treated := total_files_not_treated r + notTreated\<rparr>"

definition updateUserExtractionEnd :: "string \<Rightarrow> bool \<Rightarrow> timestamp \<Rightarrow> db_error option
    \<Rightarrow> db_error option \<Rightarrow> db_error option \<Rightarrow> interference \<Rightarrow> interference \<Rightarrow> database
    \<Rightarrow> db_error option \<times> database" where
  "updateUserExtractionEnd userPosition success now fault1 fault2 fault3 between1 between2 db =
     (let treated = (if success then 1 else 0);
          notTreated = (if success then 0 else 1)
      in case fault1 of
           Some err \<Rightarrow> (Some err, db)
         | None \<Rightarrow>
             updateUserTotalProcessingTime userPosition fault2 fault3 between2
               (between1 (updateUsers userPosition (addOutcome treated notTreated now) db)))"

definition updateUserExtractionEndBulk :: "string \<Rightarrow> int \<Rightarrow> int \<Rightarrow> timestamp \<Rightarrow> db_error option
    \<Rightarrow> db_error option \<Rightarrow> db_error option \<Rightarrow> interference \<Rightarrow> interference \<Rightarrow> database
    \<Rightarrow> db_error option \<times> database" where
  "updateUserExtractionEndBulk userPosition successCount failCount now fault1 fault2 fault3
       between1 between2 db =
     (case fault1 of
        Some err \<Rightarrow> (Some err, db)
      | None \<Rightarrow>
          updateUserTotalProcessingTime userPosition fault2 fault3 between2
            (between1 (updateUsers userPosition (addOutcome successCount failCount now) db)))"

text \<open>\<^verbatim>\<open>SELECT * FROM dbt3_file WHERE user_queue_position = ? ORDER BY id DESC\<close>\<close>

definition getUserFiles :: "string \<Rightarrow> database \<Rightarrow> file_row list" where
  "getUserFiles userPosition db =
     rev (filter (\<lambda>r. f_user_queue_position r = userPosition) (dbt3_file db))"

text \<open>The rows of a queue position and of a file id.\<close>

definition userRows :: "string \<Rightarrow> database \<Rightarrow> user_row list" where
  "userRows userPosition db = filter (\<lambda>r. user_queue_position r = userPosition) (dbt2_user db)"

definition fileRows :: "nat \<Rightarrow> database \<Rightarrow> file_row list" where
  "fileRows fileId db = filter (\<lambda>r. f_id r = fileId) (dbt3_file db)"

section \<open>Sequences of statements\<close>

text \<open>
  The route \<^verbatim>\<open>/api/get-user-session\<close>: \<^verbatim>\<open>getNextUserPosition\<close>, then \<^verbatim>\<open>createUser\<close>
  with the position it returned; the caller gets the position when both succeed. (The
  route also counts the user in \<^verbatim>\<open>dbt1_developer\<close> and makes the output directory.)
\<close>

definition getUserSession :: "db_error option \<Rightarrow> db_error option \<Rightarrow> database
    \<Rightarrow> (db_error + string) \<times> database" where
  "getUserSession fault1 fault2 db =
     (case getNextUserPosition fault1 db of
        Inl err \<Rightarrow> (Inl err, db)
      | Inr userPosition \<Rightarrow>
          (case createUser userPosition fault2 db of
             (Inl err, db') \<Rightarrow> (Inl err, db')
           | (Inr userId, db') \<Rightarrow> (Inr userPosition, db')))"

text \<open>\<open>n\<close> sessions one after the other on a working storage, and what each one returned.\<close>

fun sessions :: "nat \<Rightarrow> database \<Rightarrow> (db_error + string) list \<times> database" where
  "sessions 0 db = ([], db)"
| "sessions (Suc n) db =
     (let (r, db') = getUserSession None None db;
          (rs, db'') = sessions n db'
      in (r # rs, db''))"

text \<open>
  Callers that run at the same time: the storage executes one statement at a time, in
  some order. A step is the read of a caller (its \<^verbatim>\<open>getNextUserPosition\<close>) or its insert
  (its \<^verbatim>\<open>createUser\<close> with the position it has read). \<open>runSchedule\<close> gives the positions
  the reads returned, in the order of the schedule, and the outcome of every insert.
\<close>

datatype step = ReadPosition nat | InsertUser nat

record schedule_state =
  sdb :: database
  held :: "nat \<Rightarrow> string option"
  allocated :: "string list"
  inserted :: "(db_error + nat) list"

definition runStep :: "schedule_state \<Rightarrow> step \<Rightarrow> schedule_state" where
  "runStep s st =
     (case st of
        ReadPosition caller \<Rightarrow>
          (case getNextUserPosition None (sdb s) of
             Inl err \<Rightarrow> s
           | Inr userPosition \<Rightarrow>
               s\<lparr>held := (held s)(caller := Some userPosition),
                 allocated := allocated s @ [userPosition]\<rparr>)
      | InsertUser caller \<Rightarrow>
          (case held s caller of
             None \<Rightarrow> s
           | Some userPosition \<Rightarrow>
               (let (r, db') = createUser userPosition None (sdb s)
                in s\<lparr>sdb := db', inserted := inserted s @ [r]\<rparr>)))"

definition runSchedule :: "step list \<Rightarrow> database \<Rightarrow> schedule_state" where
  "runSchedule steps db =
     foldl runStep \<lparr>sdb = db, held = (\<lambda>caller. None), allocated = [], inserted = []\<rparr> steps"

text \<open>
  The statements that the routes \<^verbatim>\<open>/api/upload\<close> and \<^verbatim>\<open>/api/upload-bulk\<close> issue on a
  file record once \<^verbatim>\<open>addFile\<close> has created it, in the order they issue them. Both routes
  have the same \<^verbatim>\<open>try\<close> block: \<^verbatim>\<open>Tesseract.recognize\<close>, then
  \<^verbatim>\<open>updateFileAfterOCR(fileId, detectedLanguage, 'success')\<close> and the \<^verbatim>\<open>UPDATE\<close> of
  \<^verbatim>\<open>ai_file_name\<close>, then the output file is written and the upload removed; and the same
  \<^verbatim>\<open>catch\<close> block: \<^verbatim>\<open>updateFileAfterOCR(fileId, 'unknown', 'failed')\<close>. So there are
  three runs: the recognition throws; nothing throws; writing the output file or removing
  the upload throws, after the two statements of the \<^verbatim>\<open>try\<close> block were issued. \<open>now\<close> is
  the clock when the first \<^verbatim>\<open>updateFileAfterOCR\<close> runs, \<open>later\<close> when the one of the
  \<^verbatim>\<open>catch\<close> block runs after it; \<open>millis\<close> and \<open>isoString\<close> are the clock of
  \<^verbatim>\<open>generateAIFileName\<close>.
\<close>

datatype ocr_outcome = OcrThrows | Recognized string | OutputThrows string

datatype file_write = AfterOCR string string timestamp | AiFileName string

text \<open>\<^verbatim>\<open>data.text ? 'eng' : 'unknown'\<close>\<close>

definition detectedLanguageOf :: "string \<Rightarrow> string" where
  "detectedLanguageOf extractedText = (if extractedText \<noteq> [] then ''eng'' else ''unknown'')"

definition recordWrites :: "ocr_outcome \<Rightarrow> string \<Rightarrow> string \<Rightarrow> string \<Rightarrow> timestamp \<Rightarrow> timestamp
    \<Rightarrow> file_write list" where
  "recordWrites outcome fileExtension millis isoString now later =
     (case outcome of
        OcrThrows \<Rightarrow> [AfterOCR ''unknown'' ''failed'' now]
      | Recognized extractedText \<Rightarrow>
          [AfterOCR (detectedLanguageOf extractedText) ''success'' now,
           AiFileName (generateAIFileName extractedText fileExtension millis isoString)]
      | OutputThrows extractedText \<Rightarrow>
          [AfterOCR (detectedLanguageOf extractedText) ''success'' now,
           AiFileName (generateAIFileName extractedText fileExtension millis isoString),
           AfterOCR ''unknown'' ''failed'' later])"

fun applyWrite :: "nat \<Rightarrow> database \<Rightarrow> file_write \<Rightarrow> database" where
  "applyWrite fileId db (AfterOCR detectedLanguage state now) =
     snd (updateFileAfterOCR fileId detectedLanguage state now None db)"
| "applyWrite fileId db (AiFileName aiFileName) =
     snd (setAiFileName fileId aiFileName None db)"

definition runWrites :: "nat \<Rightarrow> file_write list \<Rightarrow> database \<Rightarrow> database" where
  "runWrites fileId ws db = foldl (applyWrite fileId) db ws"

text \<open>
  The statements that change the counters of a queue entry, as the upload routes issue
  them on a working storage, each helper running alone: \<^verbatim>\<open>updateUserStats\<close> for a file
  that was uploaded, \<^verbatim>\<open>updateUserExtractionEnd\<close> for the outcome of one file, and
  \<^verbatim>\<open>updateUserExtractionEndBulk\<close> for the outcomes of a batch.
\<close>

datatype agg_op = Upload | Outcome bool timestamp | BulkOutcome nat nat timestamp

fun applyOp :: "string \<Rightarrow> database \<Rightarrow> agg_op \<Rightarrow> database" where
  "applyOp userPosition db Upload = snd (updateUserStats userPosition None db)"
| "applyOp userPosition db (Outcome success now) =
     snd (updateUserExtractionEnd userPosition success now None None None alone alone db)"
| "applyOp userPosition db (BulkOutcome successCount failCount now) =
     snd (updateUserExtractionEndBulk userPosition (int successCount) (int failCount) now
            None None None alone alone db)"

definition runOps :: "string \<Rightarrow> agg_op list \<Rightarrow> database \<Rightarrow> database" where
  "runOps userPosition ops db = foldl (applyOp userPosition) db ops"

fun uploadsOf :: "agg_op \<Rightarrow> int" where
  "uploadsOf Upload = 1"
| "uploadsOf op = 0"

fun treatedOf :: "agg_op \<Rightarrow> int" where
  "treatedOf (Outcome success now) = (if success then 1 else 0)"
| "treatedOf (BulkOutcome successCount failCount now) = int successCount"
| "treatedOf Upload = 0"

fun notTreatedOf :: "agg_op \<Rightarrow> int" where
  "notTreatedOf (Outcome success now) = (if success then 0 else 1)"
| "notTreatedOf (BulkOutcome successCount failCount now) = int failCount"
| "notTreatedOf Upload = 0"

text \<open>
  The sum of the durations of the file records of a queue position in state
  \<^verbatim>\<open>success\<close>: the durations that are there, in the order of the records, and what
  \<^verbatim>\<open>COALESCE(SUM(...), 0)\<close> makes of them.
\<close>

fun successDurations :: "string \<Rightarrow> file_row list \<Rightarrow> sqlreal list" where
  "successDurations userPosition [] = []"
| "successDurations userPosition (r # rs) =
     (if f_user_queue_position r = userPosition \<and> extraction_state r = ''success''
      then (case file_processing_time r of
              None \<Rightarrow> successDurations userPosition rs
            | Some d \<Rightarrow> d # successDurations userPosition rs)
      else successDurations userPosition rs)"

definition successDuration :: "string \<Rightarrow> database \<Rightarrow> sqlreal" where
  "successDuration userPosition db =
     (if successDurations userPosition (dbt3_file db) = [] then RealZero
      else SumOf (successDurations userPosition (dbt3_file db)))"

text \<open>The terminal states of a file record.\<close>

definition terminal :: "string \<Rightarrow> bool" where
  "terminal state = (state = ''success'' \<or> state = ''failed'')"

text \<open>A file to upload, and the database after user1 has uploaded it at second 100.\<close>

definition sampleFile :: file_data where
  "sampleFile = \<lparr>fd_file_name = ''scan.png'', fd_user_queue_position = ''user1'',
     fd_ai_file_name = ''processing_1.png'', fd_file_type = ''PNG'',
     fd_output_file_type = ''TXT''\<rparr>"

definition dbUploaded :: database where
  "dbUploaded =
     snd (updateUserStats ''user1'' None
       (snd (addFile sampleFile 100 None (snd (createUser ''user1'' None emptyDb)))))"

text \<open>The same database after the file has completed with success at second 110.\<close>

definition dbCompleted :: database where
  "dbCompleted =
     snd (updateUserExtractionEnd ''user1'' True 110 None None None alone alone
       (snd (updateFileAfterOCR 1 ''eng'' ''success'' 110 None dbUploaded)))"

text \<open>
  Two requests of user1 at once. A second file is uploaded at second 102, and both files
  complete with success at second 110. The request of the first file then records its
  outcome with \<^verbatim>\<open>updateUserExtractionEnd\<close>, and the \<^verbatim>\<open>updateFileAfterOCR\<close> of the second
  file runs between the \<^verbatim>\<open>SELECT\<close> and the last \<^verbatim>\<open>UPDATE\<close> of that helper.
\<close>

definition secondFile :: file_data where
  "secondFile = \<lparr>fd_file_name = ''page2.png'', fd_user_queue_position = ''user1'',
     fd_ai_file_name = ''processing_2.png'', fd_file_type = ''PNG'',
     fd_output_file_type = ''TXT''\<rparr>"

definition dbFirstDone :: database where
  "dbFirstDone =
     snd (updateFileAfterOCR 1 ''eng'' ''success'' 110 None
       (snd (updateUserStats ''user1'' None (snd (addFile secondFile 102 None dbUploaded)))))"

definition secondFileCompletes :: interference where
  "secondFileCompletes db = snd (updateFileAfterOCR 2 ''eng'' ''success'' 110 None db)"

definition dbStale :: database where
  "dbStale =
     snd (updateUserExtractionEnd ''user1'' True 110 None None None alone secondFileCompletes
            dbFirstDone)"

section \<open>Auxiliary notions for the properties\<close>

text \<open>
  The database that the \<^verbatim>\<open>SELECT\<close> of \<^verbatim>\<open>updateUserExtractionEnd\<close> and of its bulk
  variant reads: the counters are updated, and \<open>between1\<close> has happened.
\<close>

definition atSelect :: "string \<Rightarrow> int \<Rightarrow> int \<Rightarrow> timestamp \<Rightarrow> interference \<Rightarrow> database \<Rightarrow> database" where
  "atSelect userPosition treated notTreated now between1 db =
     between1 (updateUsers userPosition (addOutcome treated notTreated now) db)"

text \<open>Reading a decimal numeral back, to tell the texts of two numbers apart.\<close>

definition digitVal :: "char \<Rightarrow> nat" where
  "digitVal c = length (takeWhile (\<lambda>d. d \<noteq> c) digitChars)"

definition readNat :: "string \<Rightarrow> nat" where
  "readNat s = foldl (\<lambda>a c. 10 * a + digitVal c) 0 s"

text \<open>The queue position with number \<open>i\<close>.\<close>

definition position :: "nat \<Rightarrow> string" where
  "position i = ''user'' @ showNat i"

text \<open>
  A user table as sessions that run one after the other build it: the \<open>i\<close>-th row holds
  the position with number \<open>i\<close>.
\<close>

definition canonical :: "database \<Rightarrow> bool" where
  "canonical db =
     (map user_queue_position (dbt2_user db) = map position [1..<Suc (length (dbt2_user db))])"

text \<open>The outcomes of a batch, one \<^verbatim>\<open>updateUserExtractionEnd\<close> for each file.\<close>

definition outcomesOf :: "(bool \<times> timestamp) list \<Rightarrow> agg_op list" where
  "outcomesOf bs = map (\<lambda>(success, now). Outcome success now) bs"

section \<open>Keywords, as the specification words them\<close>

text \<open>The maximal runs of characters with a property, from left to right.\<close>

function runs :: "(char \<Rightarrow> bool) \<Rightarrow> string \<Rightarrow> string list" where
  "runs p [] = []"
| "runs p (c # cs) =
     (if p c then (c # takeWhile p cs) # runs p (dropWhile p cs) else runs p cs)"
  by pat_completeness auto
termination
  by (relation "measure (\<lambda>(p, s). length s)") (auto simp: length_dropWhile_le less_Suc_eq_le)


definition keepWord :: "string \<Rightarrow> bool" where
  "keepWord w = (length w > 3 \<and> w \<notin> set stopWords)"

text \<open>The different elements of a list, in the order of their first occurrence.\<close>

definition firstOccurrences :: "'a list \<Rightarrow> 'a list" where
  "firstOccurrences xs = rev (remdups (rev xs))"

text \<open>
  How often a token that is kept occurs, and the kept tokens by falling frequency.
  \<open>sort_key\<close> is the stable insertion sort of the library: tokens of the same frequency
  stay in the order of their first occurrence. The keywords are the top 5.
\<close>

definition frequency :: "string list \<Rightarrow> string \<Rightarrow> nat" where
  "frequency tokens w = count_list (filter keepWord tokens) w"

definition rankedWords :: "string list \<Rightarrow> string list" where
  "rankedWords tokens =
     sort_key (\<lambda>w. - int (frequency tokens w)) (firstOccurrences (filter keepWord tokens))"



section \<open>Auxiliary notions for the keywords\<close>



section \<open>The sanitizer, by the runs of the characters it keeps\<close>

text \<open>
  The characters that \<^verbatim>\<open>sanitizeFileName\<close> copies: letters of either case, digits and
  the hyphen. Every other character, the underscore included, separates two runs of them.
  \<open>keptRuns\<close> is the runs of copied characters of a name, each as it stands in the name,
  with one underscore between two runs.
\<close>

definition keptChar :: "char \<Rightarrow> bool" where
  "keptChar c = (isUpper c \<or> isLower c \<or> isDigit c \<or> c = CHR ''-'')"

definition keptRuns :: "string \<Rightarrow> string" where
  "keptRuns name = join ''_'' (runs keptChar name)"

text \<open>An underscore, or nothing.\<close>

definition under :: "bool \<Rightarrow> string" where
  "under b = (if b then ''_'' else [])"

section \<open>Properties of the character tables\<close>

lemma translate_notin:
  "c \<notin> set from \<Longrightarrow> length from = length to \<Longrightarrow> translate from to c = c"
  by (simp add: translate_def map_of_zip_is_None [THEN iffD2])

lemma translate_in:
  assumes "c \<in> set from" "length from = length to"
  shows "translate from to c \<in> set to"
proof -
  from assms have "map_of (zip from to) c \<noteq> None"
    by (simp add: map_of_zip_is_None)
  then obtain d where d: "map_of (zip from to) c = Some d" by blast
  then have "(c, d) \<in> set (zip from to)" by (rule map_of_SomeD)
  then have "d \<in> set to" by (rule set_zip_rightD)
  with d show ?thesis by (simp add: translate_def)
qed

lemma length_letters: "length upperLetters = length lowerLetters"
  by (simp add: upperLetters_def lowerLetters_def)

lemma asciiLower_not_upper: "\<not> isUpper c \<Longrightarrow> asciiLower c = c"
  by (simp add: asciiLower_def isUpper_def translate_notin length_letters)

lemma asciiUpper_not_lower: "\<not> isLower c \<Longrightarrow> asciiUpper c = c"
  by (simp add: asciiUpper_def isLower_def translate_notin length_letters)

lemma asciiLower_upper: "isUpper c \<Longrightarrow> isLower (asciiLower c)"
  by (simp add: asciiLower_def isUpper_def isLower_def translate_in length_letters)

lemma underscore_not_alnum:
  "\<not> isUpper CHR ''_''" "\<not> isLower CHR ''_''" "\<not> isDigit CHR ''_''"
  by (simp_all add: isUpper_def isLower_def isDigit_def upperLetters_def lowerLetters_def
      digitChars_def)

section \<open>Properties of sanitizeFileName\<close>

lemma inClass_nameClass: "inClass True nameClass c \<Longrightarrow> nameChar c"
  unfolding inClass_def nameClass_def nameChar_def
  by (cases "isUpper c"; cases "isLower c")
     (auto simp: asciiLower_not_upper asciiUpper_not_lower)

lemma nameChar_inClass:
  "isUpper c \<or> isLower c \<or> isDigit c \<or> c = CHR ''-'' \<Longrightarrow> inClass True nameClass c"
  unfolding inClass_def nameClass_def
  by (cases "isUpper c") (auto simp: asciiLower_not_upper asciiLower_upper)

lemma replaceInvalid_chars: "c \<in> set (replaceInvalid s) \<Longrightarrow> nameChar c"
  using inClass_nameClass by (auto simp: replaceInvalid_def nameChar_def)

lemma set_collapseUnderscores: "set (collapseUnderscores s) \<subseteq> set s"
  by (induction s rule: collapseUnderscores.induct) auto

lemma collapseUnderscores_hd:
  "collapseUnderscores (a # s) \<noteq> [] \<and> hd (collapseUnderscores (a # s)) = a"
  by (induction "a # s" arbitrary: a s rule: collapseUnderscores.induct) auto

lemma collapseUnderscores_no_double: "\<not> hasDoubleUnderscore (collapseUnderscores s)"
proof (induction s rule: collapseUnderscores.induct)
  case (1 a b cs)
  then show ?case
    using collapseUnderscores_hd [of b cs]
    by (cases "collapseUnderscores (b # cs)") auto
qed simp_all

lemma no_double_tl: "\<not> hasDoubleUnderscore (c # s) \<Longrightarrow> \<not> hasDoubleUnderscore s"
  by (cases s) auto

lemma hasDouble_Cons:
  "hasDoubleUnderscore (a # s) =
     ((a = CHR ''_'' \<and> s \<noteq> [] \<and> hd s = CHR ''_'') \<or> hasDoubleUnderscore s)"
  by (cases s) auto

lemma no_double_take: "\<not> hasDoubleUnderscore s \<Longrightarrow> \<not> hasDoubleUnderscore (take n s)"
proof (induction s arbitrary: n)
  case Nil
  then show ?case by simp
next
  case (Cons a s)
  show ?case
  proof (cases n)
    case 0
    then show ?thesis by simp
  next
    case (Suc m)
    with Cons show ?thesis
      by (cases m) (auto simp: hasDouble_Cons hd_take)
  qed
qed

lemma no_double_butlast: "\<not> hasDoubleUnderscore s \<Longrightarrow> \<not> hasDoubleUnderscore (butlast s)"
  by (induction s rule: hasDoubleUnderscore.induct) (auto split: if_splits)

lemma set_trimUnderscores: "set (trimUnderscores s) \<subseteq> set s"
  by (auto simp: trimUnderscores_def stripLeading_def stripTrailing_def
      split: list.splits if_splits dest: in_set_butlastD)

lemma no_double_trimUnderscores:
  "\<not> hasDoubleUnderscore s \<Longrightarrow> \<not> hasDoubleUnderscore (trimUnderscores s)"
  by (auto simp: trimUnderscores_def stripLeading_def stripTrailing_def
      split: list.splits if_splits dest: no_double_butlast no_double_tl)

lemma sanitize_nonempty: "sanitizeFileName name \<noteq> []"
  by (simp add: sanitizeFileName_def Let_def)

lemma sanitize_length: "length (sanitizeFileName name) \<le> 50"
  by (simp add: sanitizeFileName_def Let_def substring0_def)

lemma unnamed_chars: "c \<in> set ''unnamed'' \<Longrightarrow> nameChar c"
  by (auto simp: nameChar_def isLower_def lowerLetters_def)

lemma sanitize_chars:
  assumes "c \<in> set (sanitizeFileName name)"
  shows "nameChar c"
proof -
  let ?s = "substring0 50 (trimUnderscores (collapseUnderscores (replaceInvalid name)))"
  show ?thesis
  proof (cases "?s = []")
    case True
    with assms have "c \<in> set ''unnamed''" by (simp add: sanitizeFileName_def)
    then show ?thesis by (rule unnamed_chars)
  next
    case False
    with assms have "c \<in> set ?s" by (simp add: sanitizeFileName_def Let_def)
    then have "c \<in> set (replaceInvalid name)"
      using set_trimUnderscores set_collapseUnderscores
      by (metis in_set_takeD subsetD substring0_def)
    then show ?thesis by (rule replaceInvalid_chars)
  qed
qed

lemma sanitize_no_double: "\<not> hasDoubleUnderscore (sanitizeFileName name)"
  by (simp add: sanitizeFileName_def Let_def substring0_def no_double_take
      no_double_trimUnderscores collapseUnderscores_no_double)

lemma collapse_id: "CHR ''_'' \<notin> set s \<Longrightarrow> collapseUnderscores s = s"
  by (induction s rule: collapseUnderscores.induct) auto

lemma sanitize_keeps:
  assumes "\<forall>c \<in> set name. isUpper c \<or> isLower c \<or> isDigit c \<or> c = CHR ''-''"
    and "name \<noteq> []" and "length name \<le> 50"
  shows "sanitizeFileName name = name"
proof -
  have u: "CHR ''_'' \<notin> set name"
    using assms(1) underscore_not_alnum by auto
  have "replaceInvalid name = name"
    using assms(1) unfolding replaceInvalid_def
    by (intro map_idI) (simp add: nameChar_inClass)
  moreover have "collapseUnderscores name = name" using u by (rule collapse_id)
  moreover have "trimUnderscores name = name"
    using u assms(2) last_in_set [of name]
    by (cases name) (auto simp: trimUnderscores_def stripLeading_def stripTrailing_def)
  ultimately show ?thesis using assms(2,3) by (simp add: sanitizeFileName_def substring0_def)
qed

lemma underscore_not_kept: "\<not> keptChar CHR ''_''"
  by code_simp

lemma underscore_inClass: "inClass True nameClass CHR ''_''"
  by code_simp

lemma inClass_keptChar: "inClass True nameClass c = (keptChar c \<or> c = CHR ''_'')"
proof
  assume "inClass True nameClass c"
  then show "keptChar c \<or> c = CHR ''_''"
    using inClass_nameClass [of c] by (auto simp: nameChar_def keptChar_def)
next
  assume "keptChar c \<or> c = CHR ''_''"
  then show "inClass True nameClass c"
    using nameChar_inClass [of c] underscore_inClass by (auto simp: keptChar_def)
qed

lemma replaceInvalid_kept:
  "replaceInvalid s = map (\<lambda>c. if keptChar c then c else CHR ''_'') s"
  unfolding replaceInvalid_def by (rule map_cong) (auto simp: inClass_keptChar)

lemma runs_nonempty: "[] \<notin> set (runs p s)"
  by (induction p s rule: runs.induct) auto

lemma join_Nil_iff: "[] \<notin> set xs \<Longrightarrow> (join sep xs = []) = (xs = [])"
  by (induction sep xs rule: join.induct) auto

lemma keptRuns_Nil_iff: "(keptRuns s = []) = (runs keptChar s = [])"
  unfolding keptRuns_def by (rule join_Nil_iff) (rule runs_nonempty)

lemma join_Cons_Cons: "join sep ((c # w) # rs) = c # join sep (w # rs)"
  by (cases rs) auto

lemma keptRuns_Nil: "keptRuns [] = []"
  by (simp add: keptRuns_def)

lemma keptRuns_skip: "\<not> keptChar c \<Longrightarrow> keptRuns (c # cs) = keptRuns cs"
  by (simp add: keptRuns_def)

lemma keptRuns_kept:
  assumes k: "keptChar c"
  shows "keptRuns (c # cs) =
     c # (if cs = [] then [] else if keptChar (hd cs) then keptRuns cs
          else if keptRuns cs = [] then [] else CHR ''_'' # keptRuns cs)"
proof (cases cs)
  case Nil
  with k show ?thesis by (simp add: keptRuns_def)
next
  case (Cons d ds)
  show ?thesis
  proof (cases "keptChar d")
    case True
    with k Cons show ?thesis by (simp add: keptRuns_def join_Cons_Cons)
  next
    case False
    with k Cons show ?thesis
      using keptRuns_Nil_iff [of cs]
      by (cases "runs keptChar ds") (auto simp: keptRuns_def)
  qed
qed

lemma keptRuns_none: "keptRuns s = [] \<Longrightarrow> c \<in> set s \<Longrightarrow> \<not> keptChar c"
proof (induction s)
  case Nil
  then show ?case by simp
next
  case (Cons d ds)
  then show ?case
    by (cases "keptChar d") (auto simp: keptRuns_skip keptRuns_kept)
qed

lemma keptRuns_hd: "keptRuns s \<noteq> [] \<Longrightarrow> keptChar (hd (keptRuns s))"
proof (induction s)
  case Nil
  then show ?case by (simp add: keptRuns_Nil)
next
  case (Cons d ds)
  then show ?case
    by (cases "keptChar d") (simp_all add: keptRuns_skip keptRuns_kept)
qed

lemma keptRuns_last: "keptRuns s \<noteq> [] \<Longrightarrow> keptChar (last (keptRuns s))"
proof (induction s)
  case Nil
  then show ?case by (simp add: keptRuns_Nil)
next
  case (Cons d ds)
  show ?case
  proof (cases "keptChar d")
    case True
    then show ?thesis using Cons.IH by (simp add: keptRuns_kept)
  next
    case False
    then show ?thesis using Cons by (simp add: keptRuns_skip)
  qed
qed

lemma collapse_Cons: "a \<noteq> CHR ''_'' \<Longrightarrow> collapseUnderscores (a # s) = a # collapseUnderscores s"
  by (cases s) auto

lemma collapse_underscore:
  "collapseUnderscores (CHR ''_'' # s) =
     (if s \<noteq> [] \<and> hd s = CHR ''_'' then collapseUnderscores s else CHR ''_'' # collapseUnderscores s)"
  by (cases s) auto

lemma collapse_replace:
  "collapseUnderscores (map (\<lambda>c. if keptChar c then c else CHR ''_'') s) =
     under (s \<noteq> [] \<and> \<not> keptChar (hd s)) @ keptRuns s
       @ under (keptRuns s \<noteq> [] \<and> \<not> keptChar (last s))"
proof (induction s)
  case Nil
  then show ?case by (simp add: keptRuns_Nil under_def)
next
  case (Cons c cs)
  note IH = Cons.IH
  show ?case
  proof (cases cs)
    case Nil
    then show ?thesis
      by (cases "keptChar c") (simp_all add: keptRuns_kept keptRuns_skip keptRuns_Nil under_def)
  next
    case tl: (Cons d ds)
    show ?thesis
    proof (cases "keptChar c")
      case True
      then have u: "c \<noteq> CHR ''_''" using underscore_not_kept by auto
      show ?thesis
      proof (cases "keptChar d")
        case kd: True
        then have "keptRuns cs \<noteq> []" using tl by (simp add: keptRuns_kept)
        with True u tl kd IH show ?thesis
          by (simp add: keptRuns_kept [of c] under_def collapse_Cons)
      next
        case kd: False
        show ?thesis
        proof (cases "keptRuns cs = []")
          case e: True
          then have "\<not> keptChar (last cs)" using keptRuns_none [of cs "last cs"] tl by simp
          with True u tl kd e IH show ?thesis
            by (simp add: keptRuns_kept [of c] under_def collapse_Cons)
        next
          case e: False
          with True u tl kd IH show ?thesis
            by (simp add: keptRuns_kept [of c] under_def collapse_Cons)
        qed
      qed
    next
      case False
      have m: "map (\<lambda>c. if keptChar c then c else CHR ''_'') cs \<noteq> []" using tl by simp
      have hdm: "(hd (map (\<lambda>c. if keptChar c then c else CHR ''_'') cs) = CHR ''_'') = (\<not> keptChar d)"
        using tl underscore_not_kept by auto
      show ?thesis
      proof (cases "keptChar d")
        case kd: True
        have "collapseUnderscores (map (\<lambda>c. if keptChar c then c else CHR ''_'') (c # cs)) =
            CHR ''_'' # collapseUnderscores (map (\<lambda>c. if keptChar c then c else CHR ''_'') cs)"
          using False m hdm kd by (simp add: collapse_underscore del: hd_map)
        with False tl kd IH show ?thesis
          by (simp add: keptRuns_skip [of c] under_def)
      next
        case kd: False
        have "collapseUnderscores (map (\<lambda>c. if keptChar c then c else CHR ''_'') (c # cs)) =
            collapseUnderscores (map (\<lambda>c. if keptChar c then c else CHR ''_'') cs)"
          using False m hdm kd by (simp add: collapse_underscore del: hd_map)
        with False tl kd IH show ?thesis
          by (simp add: keptRuns_skip [of c] under_def)
      qed
    qed
  qed
qed

lemma trim_keptRuns:
  "trimUnderscores (under a @ keptRuns s @ under (keptRuns s \<noteq> [] \<and> b)) = keptRuns s"
proof (cases "keptRuns s = []")
  case True
  then show ?thesis
    by (simp add: under_def trimUnderscores_def stripLeading_def stripTrailing_def)
next
  case False
  then obtain k ks where ks: "keptRuns s = k # ks" by (cases "keptRuns s") auto
  from False have h: "hd (keptRuns s) \<noteq> CHR ''_''" and l: "last (keptRuns s) \<noteq> CHR ''_''"
    using keptRuns_hd [of s] keptRuns_last [of s] underscore_not_kept by auto
  have lead: "stripLeading (under a @ keptRuns s @ t) = keptRuns s @ t" for t
    using h ks by (simp add: under_def stripLeading_def)
  have trail: "stripTrailing (keptRuns s @ under b) = keptRuns s"
    using l False by (simp add: under_def stripTrailing_def)
  show ?thesis using False by (simp add: trimUnderscores_def lead trail)
qed

lemma sanitize_keptRuns:
  "sanitizeFileName name = (if keptRuns name = [] then ''unnamed'' else take 50 (keptRuns name))"
  by (simp add: sanitizeFileName_def Let_def substring0_def replaceInvalid_kept collapse_replace
      trim_keptRuns)

lemma sanitize_example: "sanitizeFileName ''_Acme  Corp, 2nd!'' = ''Acme_Corp_2nd''"
  by code_simp

lemma sanitize_trailing_underscore:
  "sanitizeFileName ''aaaaaaaaaaaaaaaaaaaaaaaaaaaaaaaaaaaaaaaaaaaaaaaaa_b'' =
     ''aaaaaaaaaaaaaaaaaaaaaaaaaaaaaaaaaaaaaaaaaaaaaaaaa_''"
  by code_simp

text \<open>
  C10. For every input, \<open>sanitizeFileName\<close> returns a non-empty string of at most 50
  characters, all of them from \<^verbatim>\<open>[A-Za-z0-9_-]\<close>, with no two underscores in a row.
  Upper-case letters stay as they are, for every input: the result is the runs of letters,
  digits and hyphens of the input, each run copied as it stands, with one underscore
  between two runs and none at the two ends, cut to 50 characters, and \<^verbatim>\<open>unnamed\<close> when
  the input has no such character; so \<^verbatim>\<open>_Acme  Corp, 2nd!\<close> gives \<^verbatim>\<open>Acme_Corp_2nd\<close>,
  and a name of 1 to 50 letters, digits and hyphens comes back unchanged. The cut to 50
  characters comes after the underscores at the two ends are removed, so a result can end
  with an underscore: the input of 49 letters \<^verbatim>\<open>a\<close> followed by \<^verbatim>\<open>_b\<close> gives the 49
  letters followed by \<^verbatim>\<open>_\<close>.
\<close>

theorem sanitizeFileName_shape:
  "sanitizeFileName name \<noteq> []
   \<and> length (sanitizeFileName name) \<le> 50
   \<and> (\<forall>c \<in> set (sanitizeFileName name). nameChar c)
   \<and> \<not> hasDoubleUnderscore (sanitizeFileName name)
   \<and> ((\<forall>c \<in> set name. isUpper c \<or> isLower c \<or> isDigit c \<or> c = CHR ''-'')
        \<and> name \<noteq> [] \<and> length name \<le> 50 \<longrightarrow> sanitizeFileName name = name)
   \<and> sanitizeFileName ''aaaaaaaaaaaaaaaaaaaaaaaaaaaaaaaaaaaaaaaaaaaaaaaaa_b'' =
       ''aaaaaaaaaaaaaaaaaaaaaaaaaaaaaaaaaaaaaaaaaaaaaaaaa_''
   \<and> sanitizeFileName name =
       (if keptRuns name = [] then ''unnamed'' else take 50 (keptRuns name))
   \<and> sanitizeFileName ''_Acme  Corp, 2nd!'' = ''Acme_Corp_2nd''"
  using sanitize_nonempty sanitize_length sanitize_chars sanitize_no_double sanitize_keeps
    sanitize_trailing_underscore sanitize_keptRuns sanitize_example
  by blast

theorem sanitizeFileName_shape_witness:
  "list_all (\<lambda>c. isUpper c \<or> isLower c \<or> isDigit c \<or> c = CHR ''-'') ''Acme''
   \<and> ''Acme'' \<noteq> [] \<and> length ''Acme'' \<le> 50
   \<and> sanitizeFileName ''Acme'' = ''Acme''
   \<and> list_all nameChar (sanitizeFileName ''Acme'')"
proof -
  have h: "\<forall>c \<in> set ''Acme''. isUpper c \<or> isLower c \<or> isDigit c \<or> c = CHR ''-''"
    by (simp add: isUpper_def isLower_def upperLetters_def lowerLetters_def)
  have e: "sanitizeFileName ''Acme'' = ''Acme''"
    using sanitizeFileName_shape [of "''Acme''"] h by simp
  have "\<forall>c \<in> set (sanitizeFileName ''Acme''). nameChar c"
    using sanitizeFileName_shape [of "''Acme''"] by blast
  with h e show ?thesis by (simp add: list_all_iff)
qed

section \<open>Properties of classifyAndName\<close>

text \<open>\<open>classifyAndName\<close> is the name that \<open>generateAIFileName\<close> puts before the time stamp.\<close>

lemma generateAIFileName_stem:
  "generateAIFileName extractedText originalExtension now isoString =
     classifyAndName extractedText @ ''_''
       @ (if extractedText = [] \<or> length (trim extractedText) = 0 then now
          else timestampOf isoString)
       @ originalExtension"
  by (simp add: generateAIFileName_def classifyAndName_def Let_def)

lemma empty_document_chars: "list_all nameChar ''empty_document''"
  by (simp add: nameChar_def isLower_def lowerLetters_def)

lemma sanitize_mixedCaseNamePattern: "mixedCaseNamePattern (sanitizeFileName name)"
  using sanitize_nonempty [of name] sanitize_length [of name] sanitize_chars [of _ name]
  by (cases "sanitizeFileName name") (auto simp: mixedCaseNamePattern_def list_all_iff)

text \<open>
  C1, as the specification states it, fails: for the text \<^verbatim>\<open>ABCD\<close> the name is
  \<^verbatim>\<open>ABCD\<close>, which does not match \<^verbatim>\<open>^[a-z0-9_-]{1,50}$\<close>.
\<close>

theorem classifyAndName_uppercase_counterexample:
  "classifyAndName ''ABCD'' = ''ABCD'' \<and> \<not> specNamePattern (classifyAndName ''ABCD'')"
proof -
  have e: "classifyAndName ''ABCD'' = ''ABCD''" by code_simp
  have "\<not> specNamePattern ''ABCD''" by code_simp
  with e show ?thesis by simp
qed

text \<open>
  C1, amended. For every text, empty and white-space texts included, the name that
  \<open>classifyAndName\<close> returns matches \<^verbatim>\<open>^[A-Za-z0-9_-]{1,50}$\<close>: it is not empty, has
  at most 50 characters, and holds only letters of either case, digits, underscores and
  hyphens.
\<close>

theorem classifyAndName_pattern: "mixedCaseNamePattern (classifyAndName text)"
proof (cases "text = [] \<or> length (trim text) = 0")
  case True
  then have "classifyAndName text = ''empty_document''"
    by (simp add: classifyAndName_def)
  then show ?thesis
    using empty_document_chars by (simp add: mixedCaseNamePattern_def)
next
  case False
  then show ?thesis
    by (simp add: classifyAndName_def Let_def sanitize_mixedCaseNamePattern)
qed

section \<open>Properties of detectDocumentType\<close>

lemma detectDocumentType_firstMatch: "detectDocumentType t = firstMatch classifierRules t"
  by (simp add: detectDocumentType_def classifierRules_def)

lemma classifierRules_labels:
  "map fst classifierRules =
     [''invoice'', ''receipt'', ''contract'', ''letter'', ''report'', ''certificate'', ''form'',
      ''memo'', ''id'', ''ticket'']"
  by (simp add: classifierRules_def)

lemma firstMatch_none: "list_all (\<lambda>r. \<not> snd r t) rules \<Longrightarrow> firstMatch rules t = ''document''"
  by (induction rules t rule: firstMatch.induct) auto

text \<open>
  C2. \<open>detectDocumentType\<close> is a function of the lower-cased text, defined on every
  text. It is the first-match evaluation of the rule list in the order invoice, receipt,
  contract, letter, report, certificate, form, memo, id, ticket; when no rule matches the
  result is \<^verbatim>\<open>document\<close>; and a text on which the invoice rule and the contract rule
  both match is an \<^verbatim>\<open>invoice\<close>. A text holds the vocabulary of a rule when the rule's
  pattern matches it, which asks for whole words.
\<close>

theorem detectDocumentType_rule_order:
  "detectDocumentType t = firstMatch classifierRules t
   \<and> map fst classifierRules =
       [''invoice'', ''receipt'', ''contract'', ''letter'', ''report'', ''certificate'', ''form'',
        ''memo'', ''id'', ''ticket'']
   \<and> (list_all (\<lambda>r. \<not> snd r t) classifierRules \<longrightarrow> detectDocumentType t = ''document'')
   \<and> (rxTest False invoiceRx t \<and> rxTest False contractRx t \<longrightarrow> detectDocumentType t = ''invoice'')"
  using detectDocumentType_firstMatch [of t] classifierRules_labels
    firstMatch_none [of t classifierRules]
  by (simp add: detectDocumentType_def)

theorem detectDocumentType_rule_order_witness:
  "rxTest False invoiceRx ''invoice under the contract''
   \<and> rxTest False contractRx ''invoice under the contract''
   \<and> detectDocumentType ''invoice under the contract'' = ''invoice''
   \<and> list_all (\<lambda>r. \<not> snd r ''hello world'') classifierRules
   \<and> detectDocumentType ''hello world'' = ''document''"
proof -
  have i: "rxTest False invoiceRx ''invoice under the contract''" by code_simp
  have c: "rxTest False contractRx ''invoice under the contract''" by code_simp
  have n: "list_all (\<lambda>r. \<not> snd r ''hello world'') classifierRules" by code_simp
  have a: "detectDocumentType ''invoice under the contract'' = ''invoice''"
    using detectDocumentType_rule_order [of "''invoice under the contract''"] i c by blast
  have b: "detectDocumentType ''hello world'' = ''document''"
    using detectDocumentType_rule_order [of "''hello world''"] n by blast
  from i c a n b show ?thesis by blast
qed

text \<open>
  The rules ask for whole words: \<^verbatim>\<open>invoices\<close> is not invoice vocabulary, and a text
  with \<^verbatim>\<open>invoices\<close> and \<^verbatim>\<open>contract\<close> is a contract.
\<close>

lemma detectDocumentType_whole_words:
  "\<not> rxTest False invoiceRx ''invoices contract''
   \<and> detectDocumentType ''invoices contract'' = ''contract''"
  by code_simp

section \<open>The invoice scenario\<close>

lemma scenario_documentType: "detectDocumentType (toLowerCase scenarioText) = ''invoice''"
  by code_simp

lemma scenario_context:
  "extractContext scenarioText (toLowerCase scenarioText) ''invoice'' =
     \<lparr>company = Some ''Acme_Corp_Total'', subject = None, date = Some ''01-02-2023'',
      amount = Some ''123.45''\<rparr>"
  by code_simp

lemma scenario_topic:
  "identifyTopic (extractKeywords scenarioText) scenarioText =
     ''invoice_Acme_Corp_Total_01-02-2023_123.45''"
  by code_simp

lemma scenario_topic_cleaned:
  "identifyTopic (extractKeywords (cleanText scenarioText)) (cleanText scenarioText) =
     ''invoice_Acme_Corp_Total_01-02-2023_123.45''"
  by code_simp

text \<open>
  C9, as the specification states it, fails: the class of the company pattern holds
  \<^verbatim>\<open>\s\<close>, which matches the line break, so the company runs on over the next line up
  to the colon and is \<^verbatim>\<open>Acme_Corp_Total\<close>, not \<^verbatim>\<open>Acme_Corp\<close>.
\<close>

theorem scenario_company_counterexample:
  "company (extractContext scenarioText (toLowerCase scenarioText) ''invoice'') \<noteq> Some ''Acme_Corp''
   \<and> identifyTopic (extractKeywords scenarioText) scenarioText
       \<noteq> ''invoice_Acme_Corp_01-02-2023_123.45''"
  by (simp add: scenario_context scenario_topic)

text \<open>
  C9, amended. For the scenario text the document type is \<^verbatim>\<open>invoice\<close>, the company
  is \<^verbatim>\<open>Acme_Corp_Total\<close>, there is no subject, the date is \<^verbatim>\<open>01-02-2023\<close>, the amount
  is \<^verbatim>\<open>123.45\<close>, and the name before sanitizing, the first 4 of type, company, subject,
  date and amount joined with underscores, is
  \<^verbatim>\<open>invoice_Acme_Corp_Total_01-02-2023_123.45\<close>, for the text as it is and for the
  text with its line breaks turned into spaces, which is what \<open>generateAIFileName\<close>
  passes on.
\<close>

theorem scenario_invoice:
  "detectDocumentType (toLowerCase scenarioText) = ''invoice''
   \<and> extractContext scenarioText (toLowerCase scenarioText) ''invoice'' =
       \<lparr>company = Some ''Acme_Corp_Total'', subject = None, date = Some ''01-02-2023'',
        amount = Some ''123.45''\<rparr>
   \<and> identifyTopic (extractKeywords scenarioText) scenarioText =
       ''invoice_Acme_Corp_Total_01-02-2023_123.45''
   \<and> identifyTopic (extractKeywords (cleanText scenarioText)) (cleanText scenarioText) =
       ''invoice_Acme_Corp_Total_01-02-2023_123.45''"
  using scenario_documentType scenario_context scenario_topic scenario_topic_cleaned by simp

text \<open>
  Through \<open>classifyAndName\<close>, which turns the line breaks into spaces first and
  sanitizes the topic last, the scenario text is named
  \<^verbatim>\<open>invoice_Acme_Corp_Total_01-02-2023_123_45\<close>.
\<close>

lemma scenario_classifyAndName:
  "classifyAndName scenarioText = ''invoice_Acme_Corp_Total_01-02-2023_123_45''"
  by code_simp




section \<open>Properties of the file records\<close>

lemma completeRow_fields:
  "f_id (completeRow lang st now r) = f_id r"
  "f_user_queue_position (completeRow lang st now r) = f_user_queue_position r"
  "f_extraction_start_timestamp (completeRow lang st now r) = f_extraction_start_timestamp r"
  "extraction_state (completeRow lang st now r) = st"
  "detected_language (completeRow lang st now r) = Some lang"
  "f_extraction_end_timestamp (completeRow lang st now r) = Some now"
  "ai_file_name (completeRow lang st now r) = ai_file_name r"
  by (simp_all add: completeRow_def)

lemma completeRow_duration:
  "file_processing_time (completeRow lang st now r) =
     map_option (\<lambda>start. Elapsed start now) (f_extraction_start_timestamp r)"
  by (cases "f_extraction_start_timestamp r") (simp_all add: completeRow_def)

lemma filter_map_if:
  assumes "\<And>r. P (f r) = P r"
  shows "filter P (map (\<lambda>r. if P r then f r else r) xs) = map f (filter P xs)"
  using assms by (induction xs) auto

lemma fileRows_updateFileAfterOCR:
  "fileRows fileId (snd (updateFileAfterOCR fileId lang st now None db)) =
     map (completeRow lang st now) (fileRows fileId db)"
  by (simp add: fileRows_def updateFileAfterOCR_def filter_map_if completeRow_fields)

lemma fileRows_setAiFileName:
  "fileRows fileId (snd (setAiFileName fileId aiFileName None db)) =
     map (\<lambda>r. r\<lparr>ai_file_name := aiFileName\<rparr>) (fileRows fileId db)"
  by (simp add: fileRows_def setAiFileName_def filter_map_if)

lemma selectTotal_list:
  "map the (filter (\<lambda>v. v \<noteq> None)
      (map file_processing_time
         (filter (\<lambda>r. f_user_queue_position r = u \<and> extraction_state r = ''success'') xs))) =
     successDurations u xs"
  by (induction xs) auto

lemma selectTotal_successDuration: "selectTotal u db = successDuration u db"
  unfolding selectTotal_def successDuration_def selectTotal_list
  by (cases "successDurations u (dbt3_file db)") simp_all

lemma dbt3_updateUsers: "dbt3_file (updateUsers u f db) = dbt3_file db"
  by (simp add: updateUsers_def)

lemma successDuration_updateUsers: "successDuration u (updateUsers v f db) = successDuration u db"
  by (simp add: successDuration_def dbt3_updateUsers)

lemma successDuration_files:
  "dbt3_file db' = dbt3_file db \<Longrightarrow> successDuration u db' = successDuration u db"
  by (simp add: successDuration_def)

lemma userRows_updateUsers:
  assumes "\<And>r. user_queue_position (f r) = user_queue_position r"
  shows "userRows u (updateUsers u f db) = map f (userRows u db)"
  using assms by (simp add: userRows_def updateUsers_def filter_map_if)

lemma addOutcome_position: "user_queue_position (addOutcome a b now r) = user_queue_position r"
  by (simp add: addOutcome_def)

lemma total_no_fault:
  "updateUserTotalProcessingTime u f2 f3 between db = (None, db') \<Longrightarrow> f2 = None \<and> f3 = None"
  by (auto simp: updateUserTotalProcessingTime_def Let_def split: option.splits)

lemma total_result:
  assumes "updateUserTotalProcessingTime u f2 f3 between db = (None, db')"
  shows "db' = updateUsers u (\<lambda>r. r\<lparr>total_processing_time := successDuration u db\<rparr>) (between db)"
  using assms
  by (auto simp: updateUserTotalProcessingTime_def Let_def selectTotal_successDuration
      split: option.splits)

lemma total_read:
  assumes "updateUserTotalProcessingTime u f2 f3 between db = (None, db')"
  shows "list_all (\<lambda>r. total_processing_time r = successDuration u db) (userRows u db')"
  unfolding total_result [OF assms]
  by (simp add: userRows_updateUsers list_all_iff)

lemma total_files:
  assumes "updateUserTotalProcessingTime u f2 f3 between db = (None, db')"
  shows "dbt3_file db' = dbt3_file (between db)"
  unfolding total_result [OF assms] by (simp add: dbt3_updateUsers)

lemma end_total:
  assumes "updateUserExtractionEnd u success now f1 f2 f3 between1 between2 db = (None, db')"
  shows "updateUserTotalProcessingTime u f2 f3 between2
           (atSelect u (if success then 1 else 0) (if success then 0 else 1) now between1 db) = (None, db')"
  using assms
  by (auto simp: updateUserExtractionEnd_def atSelect_def Let_def split: option.splits)

lemma bulk_total:
  assumes "updateUserExtractionEndBulk u successCount failCount now f1 f2 f3 between1 between2 db = (None, db')"
  shows "updateUserTotalProcessingTime u f2 f3 between2
           (atSelect u successCount failCount now between1 db) = (None, db')"
  using assms
  by (auto simp: updateUserExtractionEndBulk_def atSelect_def Let_def split: option.splits)

lemma recomputed:
  assumes "updateUserTotalProcessingTime u f2 f3 between2 s = (None, db')"
  shows "list_all (\<lambda>r. total_processing_time r = successDuration u s) (userRows u db')
       \<and> (dbt3_file (between2 s) = dbt3_file s \<longrightarrow>
            list_all (\<lambda>r. total_processing_time r = successDuration u db') (userRows u db'))"
proof -
  note r = total_read [OF assms]
  have "successDuration u db' = successDuration u s" if "dbt3_file (between2 s) = dbt3_file s"
    using that total_files [OF assms] by (simp add: successDuration_def)
  with r show ?thesis by simp
qed

text \<open>
  C5, as the specification states it, fails. \<^verbatim>\<open>updateUserExtractionEnd\<close> reads the sum
  in one statement and writes it in another, with no transaction around the two. In
  \<open>dbFirstDone\<close> user1 has two files, uploaded at seconds 100 and 102, and the first has
  completed with success at second 110. The helper now records that outcome, and the second
  file completes with success between its \<^verbatim>\<open>SELECT\<close> and its last \<^verbatim>\<open>UPDATE\<close>. The helper
  calls back without an error and leaves \<open>dbStale\<close>: the total of user1 is the sum over
  the first file alone, which stands for 10 seconds, and the sum over the records of user1
  in state \<^verbatim>\<open>success\<close> is the sum over both files, which stands for 18 seconds.
\<close>

theorem total_processing_time_stale_counterexample:
  "fst (updateUserExtractionEnd ''user1'' True 110 None None None alone secondFileCompletes
          dbFirstDone) = None
   \<and> dbStale = snd (updateUserExtractionEnd ''user1'' True 110 None None None alone
          secondFileCompletes dbFirstDone)
   \<and> map total_processing_time (userRows ''user1'' dbStale) = [SumOf [Elapsed 100 110]]
   \<and> successDuration ''user1'' dbStale = SumOf [Elapsed 100 110, Elapsed 102 110]
   \<and> map nominalSeconds (map total_processing_time (userRows ''user1'' dbStale)) = [10]
   \<and> nominalSeconds (successDuration ''user1'' dbStale) = 18
   \<and> \<not> list_all (\<lambda>r. total_processing_time r = successDuration ''user1'' dbStale)
         (userRows ''user1'' dbStale)"
  by code_simp

text \<open>
  C5, amended. When \<^verbatim>\<open>updateUserExtractionEnd\<close> or its bulk variant calls back without
  an error, whatever ran between its statements, every row of the queue position holds as
  \<^verbatim>\<open>total_processing_time\<close> the sum that its \<^verbatim>\<open>SELECT\<close> read: the sum of
  \<^verbatim>\<open>file_processing_time\<close> over exactly the file records of that position whose state
  was \<^verbatim>\<open>success\<close> at that moment (a record without a duration adds nothing), whatever
  the total was before. That is the sum over the records of the database the helper
  leaves when the file table did not change between the \<^verbatim>\<open>SELECT\<close> and the last
  \<^verbatim>\<open>UPDATE\<close>, as when the helper runs alone. The sum is the value SQLite computes for
  these durations, in the order of the records.
\<close>

theorem total_processing_time_recomputed:
  "(updateUserExtractionEnd u success now f1 f2 f3 between1 between2 db = (None, db') \<longrightarrow>
      list_all (\<lambda>r. total_processing_time r =
                  successDuration u
                    (atSelect u (if success then 1 else 0) (if success then 0 else 1) now between1 db))
        (userRows u db')
      \<and> (dbt3_file (between2 (atSelect u (if success then 1 else 0) (if success then 0 else 1)
                                 now between1 db)) =
           dbt3_file (atSelect u (if success then 1 else 0) (if success then 0 else 1) now between1 db)
          \<longrightarrow> list_all (\<lambda>r. total_processing_time r = successDuration u db') (userRows u db')))
   \<and> (updateUserExtractionEndBulk u successCount failCount now f1 f2 f3 between1 between2 db =
        (None, db'') \<longrightarrow>
      list_all (\<lambda>r. total_processing_time r =
                  successDuration u (atSelect u successCount failCount now between1 db))
        (userRows u db'')
      \<and> (dbt3_file (between2 (atSelect u successCount failCount now between1 db)) =
           dbt3_file (atSelect u successCount failCount now between1 db)
          \<longrightarrow> list_all (\<lambda>r. total_processing_time r = successDuration u db'') (userRows u db'')))"
proof (intro conjI impI)
  assume a: "updateUserExtractionEnd u success now f1 f2 f3 between1 between2 db = (None, db')"
  note r = recomputed [OF end_total [OF a]]
  from r show "list_all (\<lambda>r. total_processing_time r =
                  successDuration u
                    (atSelect u (if success then 1 else 0) (if success then 0 else 1) now between1 db))
        (userRows u db')" by (rule conjunct1)
  assume "dbt3_file (between2 (atSelect u (if success then 1 else 0) (if success then 0 else 1)
                                 now between1 db)) =
           dbt3_file (atSelect u (if success then 1 else 0) (if success then 0 else 1) now between1 db)"
  with r show "list_all (\<lambda>r. total_processing_time r = successDuration u db') (userRows u db')"
    by (rule conjunct2 [THEN mp])
next
  assume a: "updateUserExtractionEndBulk u successCount failCount now f1 f2 f3 between1 between2 db =
        (None, db'')"
  note r = recomputed [OF bulk_total [OF a]]
  from r show "list_all (\<lambda>r. total_processing_time r =
                  successDuration u (atSelect u successCount failCount now between1 db))
        (userRows u db'')" by (rule conjunct1)
  assume "dbt3_file (between2 (atSelect u successCount failCount now between1 db)) =
           dbt3_file (atSelect u successCount failCount now between1 db)"
  with r show "list_all (\<lambda>r. total_processing_time r = successDuration u db'') (userRows u db'')"
    by (rule conjunct2 [THEN mp])
qed

theorem total_processing_time_recomputed_witness:
  "updateUserExtractionEnd ''user1'' True 110 None None None alone alone
      (snd (updateFileAfterOCR 1 ''eng'' ''success'' 110 None dbUploaded)) = (None, dbCompleted)
   \<and> updateUserExtractionEndBulk ''user1'' 1 0 110 None None None alone alone
      (snd (updateFileAfterOCR 1 ''eng'' ''success'' 110 None dbUploaded)) = (None, dbCompleted)
   \<and> map total_processing_time (userRows ''user1'' dbCompleted) = [SumOf [Elapsed 100 110]]
   \<and> successDuration ''user1'' dbCompleted = SumOf [Elapsed 100 110]
   \<and> list_all (\<lambda>r. total_processing_time r = successDuration ''user1'' dbCompleted)
        (userRows ''user1'' dbCompleted)"
proof -
  let ?db = "snd (updateFileAfterOCR 1 ''eng'' ''success'' 110 None dbUploaded)"
  have h: "updateUserExtractionEnd ''user1'' True 110 None None None alone alone ?db =
      (None, dbCompleted)"
    by (simp add: dbCompleted_def updateUserExtractionEnd_def updateUserTotalProcessingTime_def)
  have b: "updateUserExtractionEndBulk ''user1'' 1 0 110 None None None alone alone ?db =
      (None, dbCompleted)"
    by (simp add: dbCompleted_def updateUserExtractionEnd_def updateUserExtractionEndBulk_def
        updateUserTotalProcessingTime_def)
  have t: "map total_processing_time (userRows ''user1'' dbCompleted) = [SumOf [Elapsed 100 110]]"
    by code_simp
  have s: "successDuration ''user1'' dbCompleted = SumOf [Elapsed 100 110]" by code_simp
  have f: "dbt3_file (alone (atSelect ''user1'' (if True then 1 else 0) (if True then 0 else 1)
                               110 alone ?db)) =
           dbt3_file (atSelect ''user1'' (if True then 1 else 0) (if True then 0 else 1) 110 alone ?db)"
    by (simp add: alone_def)
  from total_processing_time_recomputed
         [of "''user1''" True 110 None None None alone alone ?db dbCompleted 1 0 dbCompleted] h f
  have "list_all (\<lambda>r. total_processing_time r = successDuration ''user1'' dbCompleted)
        (userRows ''user1'' dbCompleted)" by blast
  with h b t s show ?thesis by blast
qed

section \<open>Completing a file record\<close>

lemma counters_updateUserExtractionEnd:
  "map total_files_treated
     (userRows u (snd (updateUserExtractionEnd u success now None None None alone alone db))) =
     map (\<lambda>x. x + (if success then 1 else 0)) (map total_files_treated (userRows u db))"
  "map total_files_not_treated
     (userRows u (snd (updateUserExtractionEnd u success now None None None alone alone db))) =
     map (\<lambda>x. x + (if success then 0 else 1)) (map total_files_not_treated (userRows u db))"
  by (simp_all add: updateUserExtractionEnd_def updateUserTotalProcessingTime_def Let_def alone_def
      userRows_updateUsers addOutcome_position addOutcome_def comp_def)

text \<open>
  C3, as the specification states it, fails. In \<open>dbCompleted\<close> file 1 is in the terminal
  state \<^verbatim>\<open>success\<close>, with end time 110 and the duration from second 100 to second 110.
  A second \<^verbatim>\<open>updateFileAfterOCR\<close> for file 1 at second 125 calls back without an error
  and leaves the record in state \<^verbatim>\<open>failed\<close> with end time 125 and the duration from
  second 100 to second 125; a second \<^verbatim>\<open>updateUserExtractionEnd\<close> takes the counter of
  treated files from 1 to 2.
\<close>

theorem completion_repeated_counterexample:
  "map extraction_state (fileRows 1 dbCompleted) = [''success'']
   \<and> terminal ''success''
   \<and> fst (updateFileAfterOCR 1 ''unknown'' ''failed'' 125 None dbCompleted) = None
   \<and> map extraction_state
        (fileRows 1 (snd (updateFileAfterOCR 1 ''unknown'' ''failed'' 125 None dbCompleted))) = [''failed'']
   \<and> map f_extraction_end_timestamp (fileRows 1 dbCompleted) = [Some 110]
   \<and> map f_extraction_end_timestamp
        (fileRows 1 (snd (updateFileAfterOCR 1 ''unknown'' ''failed'' 125 None dbCompleted))) = [Some 125]
   \<and> map file_processing_time (fileRows 1 dbCompleted) = [Some (Elapsed 100 110)]
   \<and> map file_processing_time
        (fileRows 1 (snd (updateFileAfterOCR 1 ''unknown'' ''failed'' 125 None dbCompleted))) =
       [Some (Elapsed 100 125)]
   \<and> map total_files_treated (userRows ''user1'' dbCompleted) = [1]
   \<and> map total_files_treated
        (userRows ''user1''
           (snd (updateUserExtractionEnd ''user1'' True 125 None None None alone alone dbCompleted))) = [2]"
  by code_simp

text \<open>
  C3, amended. Completing a file record can be repeated: \<^verbatim>\<open>updateFileAfterOCR\<close> has no
  guard on the state. On a working storage it calls back without an error for every file
  id and every database, and every record with that id, whatever its state, terminal
  states included, gets the new language, the new state, the current time as its end
  time and, as its duration, what SQLite computes for the time from its start to the
  current time (nothing when it has no start). Every \<^verbatim>\<open>updateUserExtractionEnd\<close> that
  runs alone on a working storage adds 1 to the counter of treated files of every row of
  the queue position when it records a success, and 1 to the counter of files not treated
  when it records a failure.
\<close>

theorem completion_overwrites:
  "fst (updateFileAfterOCR fileId lang st now None db) = None
   \<and> fileRows fileId (snd (updateFileAfterOCR fileId lang st now None db)) =
       map (completeRow lang st now) (fileRows fileId db)
   \<and> extraction_state (completeRow lang st now r) = st
   \<and> detected_language (completeRow lang st now r) = Some lang
   \<and> f_extraction_end_timestamp (completeRow lang st now r) = Some now
   \<and> file_processing_time (completeRow lang st now r) =
       map_option (\<lambda>start. Elapsed start now) (f_extraction_start_timestamp r)
   \<and> map total_files_treated
       (userRows u (snd (updateUserExtractionEnd u True now None None None alone alone db))) =
       map (\<lambda>x. x + 1) (map total_files_treated (userRows u db))
   \<and> map total_files_not_treated
       (userRows u (snd (updateUserExtractionEnd u True now None None None alone alone db))) =
       map total_files_not_treated (userRows u db)
   \<and> map total_files_not_treated
       (userRows u (snd (updateUserExtractionEnd u False now None None None alone alone db))) =
       map (\<lambda>x. x + 1) (map total_files_not_treated (userRows u db))
   \<and> map total_files_treated
       (userRows u (snd (updateUserExtractionEnd u False now None None None alone alone db))) =
       map total_files_treated (userRows u db)"
  using fileRows_updateFileAfterOCR [of fileId lang st now db]
    counters_updateUserExtractionEnd [of u True now db]
    counters_updateUserExtractionEnd [of u False now db]
  by (simp add: completeRow_fields completeRow_duration updateFileAfterOCR_def)

section \<open>Creating a file record\<close>

lemma fileRows_runWrites_Nil: "runWrites fileId [] db = db"
  by (simp add: runWrites_def)

lemma fileRows_runWrites_Cons:
  "runWrites fileId (w # ws) db = runWrites fileId ws (applyWrite fileId db w)"
  by (simp add: runWrites_def)

lemma fileRows_written:
  "fileRows fileId (runWrites fileId (recordWrites OcrThrows ext millis isoString now later) db) =
     map (completeRow ''unknown'' ''failed'' now) (fileRows fileId db)"
  "fileRows fileId
     (runWrites fileId (recordWrites (Recognized extractedText) ext millis isoString now later) db) =
     map (\<lambda>r. (completeRow (detectedLanguageOf extractedText) ''success'' now r)
                \<lparr>ai_file_name := generateAIFileName extractedText ext millis isoString\<rparr>)
       (fileRows fileId db)"
  "fileRows fileId
     (runWrites fileId (recordWrites (OutputThrows extractedText) ext millis isoString now later) db) =
     map (\<lambda>r. completeRow ''unknown'' ''failed'' later
                ((completeRow (detectedLanguageOf extractedText) ''success'' now r)
                   \<lparr>ai_file_name := generateAIFileName extractedText ext millis isoString\<rparr>))
       (fileRows fileId db)"
  by (simp_all add: recordWrites_def fileRows_runWrites_Nil fileRows_runWrites_Cons
      fileRows_updateFileAfterOCR fileRows_setAiFileName comp_def)

text \<open>
  C7, as the specification states it, fails, in both halves. \<^verbatim>\<open>addFile\<close> writes the state
  \<^verbatim>\<open>processing\<close> into the record, so the default \<^verbatim>\<open>pending\<close> of the column never
  shows. And when the recognition succeeds the routes write the record twice: for the
  text \<^verbatim>\<open>Hello\<close>, \<^verbatim>\<open>updateFileAfterOCR\<close> takes the record of file 1 in \<open>dbUploaded\<close> from
  state \<^verbatim>\<open>processing\<close> to state \<^verbatim>\<open>success\<close>, and the \<^verbatim>\<open>UPDATE\<close> of \<^verbatim>\<open>ai_file_name\<close>
  then takes its name from \<^verbatim>\<open>processing_1.png\<close> to the generated name.
\<close>

theorem addFile_pending_counterexample:
  "map extraction_state (dbt3_file (snd (addFile sampleFile 100 None emptyDb))) = [''processing'']
   \<and> ''processing'' \<noteq> ''pending''
   \<and> recordWrites (Recognized ''Hello'') ''.png'' ''1704164645678'' ''2024-01-02T03:04:05.678Z''
        110 111 =
       [AfterOCR ''eng'' ''success'' 110, AiFileName ''Hello_2024-01-02T03-04-05.png'']
   \<and> map extraction_state (fileRows 1 dbUploaded) = [''processing'']
   \<and> map ai_file_name (fileRows 1 dbUploaded) = [''processing_1.png'']
   \<and> map extraction_state
        (fileRows 1 (runWrites 1 [AfterOCR ''eng'' ''success'' 110] dbUploaded)) = [''success'']
   \<and> map ai_file_name
        (fileRows 1 (runWrites 1 [AfterOCR ''eng'' ''success'' 110] dbUploaded)) =
       [''processing_1.png'']
   \<and> map extraction_state
        (fileRows 1 (runWrites 1 [AfterOCR ''eng'' ''success'' 110,
                                  AiFileName ''Hello_2024-01-02T03-04-05.png''] dbUploaded)) =
       [''success'']
   \<and> map ai_file_name
        (fileRows 1 (runWrites 1 [AfterOCR ''eng'' ''success'' 110,
                                  AiFileName ''Hello_2024-01-02T03-04-05.png''] dbUploaded)) =
       [''Hello_2024-01-02T03-04-05.png'']"
  by code_simp

text \<open>
  C7, amended. Every file record is in state \<^verbatim>\<open>processing\<close> right after \<^verbatim>\<open>addFile\<close>
  has created it, with a fresh id, the current time as its start time, the name the caller
  passed, and no language, end time or duration; the user table is untouched. After that
  the upload routes write the record once when the recognition throws, twice when nothing
  throws, and three times when a step after the recognition throws. \<^verbatim>\<open>updateFileAfterOCR\<close>
  writes the language, the end time, the duration (what SQLite computes for the time from
  the start to the end) and the state the caller passes in one update: \<^verbatim>\<open>failed\<close> when
  the recognition throws, \<^verbatim>\<open>success\<close> otherwise, and then \<^verbatim>\<open>failed\<close> over it when a
  later step throws. The second update of the success path changes \<^verbatim>\<open>ai_file_name\<close> and
  nothing else.
\<close>

theorem addFile_processing:
  "fst (addFile fileData now None db) = Inr (dbt3_seq db + 1)
   \<and> (\<exists>r. dbt3_file (snd (addFile fileData now None db)) = dbt3_file db @ [r]
        \<and> f_id r = dbt3_seq db + 1
        \<and> extraction_state r = ''processing''
        \<and> ai_file_name r = fd_ai_file_name fileData
        \<and> f_extraction_start_timestamp r = Some now
        \<and> f_extraction_end_timestamp r = None
        \<and> file_processing_time r = None
        \<and> detected_language r = None
        \<and> extraction_state (completeRow lang st later r) = st
        \<and> f_extraction_end_timestamp (completeRow lang st later r) = Some later
        \<and> file_processing_time (completeRow lang st later r) = Some (Elapsed now later)
        \<and> detected_language (completeRow lang st later r) = Some lang)
   \<and> dbt2_user (snd (addFile fileData now None db)) = dbt2_user db
   \<and> fileRows fileId (snd (updateFileAfterOCR fileId lang st later None db)) =
       map (completeRow lang st later) (fileRows fileId db)
   \<and> fileRows fileId (snd (setAiFileName fileId aiFileName None db)) =
       map (\<lambda>r. r\<lparr>ai_file_name := aiFileName\<rparr>) (fileRows fileId db)
   \<and> length (recordWrites OcrThrows ext millis isoString t1 t2) = 1
   \<and> length (recordWrites (Recognized extractedText) ext millis isoString t1 t2) = 2
   \<and> length (recordWrites (OutputThrows extractedText) ext millis isoString t1 t2) = 3
   \<and> fileRows fileId (runWrites fileId (recordWrites OcrThrows ext millis isoString t1 t2) db) =
       map (completeRow ''unknown'' ''failed'' t1) (fileRows fileId db)
   \<and> fileRows fileId
       (runWrites fileId (recordWrites (Recognized extractedText) ext millis isoString t1 t2) db) =
       map (\<lambda>r. (completeRow (detectedLanguageOf extractedText) ''success'' t1 r)
                  \<lparr>ai_file_name := generateAIFileName extractedText ext millis isoString\<rparr>)
         (fileRows fileId db)
   \<and> fileRows fileId
       (runWrites fileId (recordWrites (OutputThrows extractedText) ext millis isoString t1 t2) db) =
       map (\<lambda>r. completeRow ''unknown'' ''failed'' t2
                  ((completeRow (detectedLanguageOf extractedText) ''success'' t1 r)
                     \<lparr>ai_file_name := generateAIFileName extractedText ext millis isoString\<rparr>))
         (fileRows fileId db)"
  using fileRows_updateFileAfterOCR [of fileId lang st later db]
    fileRows_setAiFileName [of fileId aiFileName db]
  by (simp add: addFile_def Let_def completeRow_fields completeRow_duration fileRows_written)
     (simp add: recordWrites_def)

section \<open>The counters of a queue entry\<close>

lemma userRows_applyOp:
  "userRows u (applyOp u db op) =
     map (\<lambda>r. case op of
                 Upload \<Rightarrow> r\<lparr>total_files_uploaded := total_files_uploaded r + 1\<rparr>
               | Outcome success now \<Rightarrow>
                   (addOutcome (treatedOf op) (notTreatedOf op) now r)
                     \<lparr>total_processing_time := successDuration u db\<rparr>
               | BulkOutcome successCount failCount now \<Rightarrow>
                   (addOutcome (treatedOf op) (notTreatedOf op) now r)
                     \<lparr>total_processing_time := successDuration u db\<rparr>)
       (userRows u db)"
  by (cases op)
     (simp_all add: updateUserStats_def updateUserExtractionEnd_def
       updateUserExtractionEndBulk_def updateUserTotalProcessingTime_def Let_def alone_def
       userRows_updateUsers addOutcome_position selectTotal_successDuration
       successDuration_updateUsers comp_def)

lemma uploaded_applyOp:
  "map total_files_uploaded (userRows u (applyOp u db op)) =
     map (\<lambda>x. x + uploadsOf op) (map total_files_uploaded (userRows u db))"
  unfolding userRows_applyOp by (cases op) (simp_all add: addOutcome_def comp_def)

lemma treated_applyOp:
  "map total_files_treated (userRows u (applyOp u db op)) =
     map (\<lambda>x. x + treatedOf op) (map total_files_treated (userRows u db))"
  unfolding userRows_applyOp by (cases op) (simp_all add: addOutcome_def comp_def)

lemma notTreated_applyOp:
  "map total_files_not_treated (userRows u (applyOp u db op)) =
     map (\<lambda>x. x + notTreatedOf op) (map total_files_not_treated (userRows u db))"
  unfolding userRows_applyOp by (cases op) (simp_all add: addOutcome_def comp_def)

lemmas counters_applyOp = uploaded_applyOp treated_applyOp notTreated_applyOp

lemma counters_runOps:
  "map total_files_uploaded (userRows u (runOps u ops db)) =
     map (\<lambda>x. x + sum_list (map uploadsOf ops)) (map total_files_uploaded (userRows u db))
   \<and> map total_files_treated (userRows u (runOps u ops db)) =
     map (\<lambda>x. x + sum_list (map treatedOf ops)) (map total_files_treated (userRows u db))
   \<and> map total_files_not_treated (userRows u (runOps u ops db)) =
     map (\<lambda>x. x + sum_list (map notTreatedOf ops)) (map total_files_not_treated (userRows u db))"
  unfolding runOps_def
proof (induction ops arbitrary: db)
  case Nil
  then show ?case by simp
next
  case (Cons op ops)
  show ?case
    by (simp add: Cons.IH counters_applyOp comp_def add.assoc)
qed

lemma userRows_fresh:
  assumes "createUser u None db = (Inr i, db1)"
  shows "map total_files_uploaded (userRows u db1) = [0]
       \<and> map total_files_treated (userRows u db1) = [0]
       \<and> map total_files_not_treated (userRows u db1) = [0]"
proof -
  from assms have n: "u \<notin> set (map user_queue_position (dbt2_user db))"
    by (auto simp: createUser_def Let_def split: if_splits)
  then have "filter (\<lambda>r. user_queue_position r = u) (dbt2_user db) = []"
    by (auto simp: filter_empty_conv)
  with assms n show ?thesis
    by (auto simp: createUser_def Let_def userRows_def split: if_splits)
qed

lemma sums_outcomes:
  "sum_list (map uploadsOf (outcomesOf bs)) = 0"
  "sum_list (map treatedOf (outcomesOf bs)) = int (length (filter fst bs))"
  "sum_list (map notTreatedOf (outcomesOf bs)) = int (length (filter (\<lambda>x. \<not> fst x) bs))"
  by (induction bs; simp add: outcomesOf_def case_prod_beta)+

lemma sums_uploads:
  "sum_list (map uploadsOf (replicate n Upload)) = int n"
  "sum_list (map treatedOf (replicate n Upload)) = 0"
  "sum_list (map notTreatedOf (replicate n Upload)) = 0"
  by (induction n; simp)+

lemma singleton_map:
  assumes "map f xs = [a]"
  obtains r where "xs = [r]" and "f r = a"
  using assms by (cases xs) auto

text \<open>
  C6, as the specification states it, fails: no statement guards the bound. Recording
  one success for a fresh queue entry that has no upload gives 1 treated file and 0
  uploaded files.
\<close>

theorem counters_unguarded_counterexample:
  "map total_files_uploaded
     (userRows ''user1'' (runOps ''user1'' [Outcome True 5] (snd (createUser ''user1'' None emptyDb)))) = [0]
   \<and> map total_files_treated
     (userRows ''user1'' (runOps ''user1'' [Outcome True 5] (snd (createUser ''user1'' None emptyDb)))) = [1]
   \<and> \<not> list_all (\<lambda>r. total_files_treated r + total_files_not_treated r \<le> total_files_uploaded r)
         (dbt2_user (runOps ''user1'' [Outcome True 5] (snd (createUser ''user1'' None emptyDb))))"
  by code_simp

text \<open>
  C6, amended. For a fresh queue entry the counters count the statements issued for it:
  the uploaded files are the uploads recorded, the treated files the successes and the
  files not treated the failures, recorded one by one or in bulk. So treated plus not
  treated is at most uploaded exactly when no more outcomes than uploads were recorded. In
  particular, after \<open>n\<close> uploads and then the outcomes of a batch with \<open>k\<close> successes and
  \<open>m\<close> failures, treated is \<open>k\<close>, not treated is \<open>m\<close> and uploaded is \<open>n\<close>.
\<close>

theorem counters_count_operations:
  assumes "createUser u None db = (Inr i, db1)"
  shows "map total_files_uploaded (userRows u (runOps u ops db1)) = [sum_list (map uploadsOf ops)]
       \<and> map total_files_treated (userRows u (runOps u ops db1)) = [sum_list (map treatedOf ops)]
       \<and> map total_files_not_treated (userRows u (runOps u ops db1)) = [sum_list (map notTreatedOf ops)]
       \<and> list_all (\<lambda>r. total_files_treated r + total_files_not_treated r \<le> total_files_uploaded r)
            (userRows u (runOps u ops db1)) =
           (sum_list (map treatedOf ops) + sum_list (map notTreatedOf ops) \<le> sum_list (map uploadsOf ops))
       \<and> map total_files_uploaded (userRows u (runOps u (replicate n Upload @ outcomesOf bs) db1)) = [int n]
       \<and> map total_files_treated (userRows u (runOps u (replicate n Upload @ outcomesOf bs) db1)) =
           [int (length (filter fst bs))]
       \<and> map total_files_not_treated (userRows u (runOps u (replicate n Upload @ outcomesOf bs) db1)) =
           [int (length (filter (\<lambda>x. \<not> fst x) bs))]
       \<and> map total_files_treated (userRows u (runOps u (replicate n Upload @ [BulkOutcome k m now]) db1)) =
           [int k]
       \<and> map total_files_not_treated (userRows u (runOps u (replicate n Upload @ [BulkOutcome k m now]) db1)) =
           [int m]"
proof -
  note f = userRows_fresh [OF assms]
  have c: "map total_files_uploaded (userRows u (runOps u ops db1)) = [sum_list (map uploadsOf ops)]"
    "map total_files_treated (userRows u (runOps u ops db1)) = [sum_list (map treatedOf ops)]"
    "map total_files_not_treated (userRows u (runOps u ops db1)) = [sum_list (map notTreatedOf ops)]"
    for ops
    using f by (simp_all add: counters_runOps)
  from c(1) [of ops] obtain r where r: "userRows u (runOps u ops db1) = [r]"
    by (rule singleton_map)
  have inv: "list_all (\<lambda>r. total_files_treated r + total_files_not_treated r \<le> total_files_uploaded r)
            (userRows u (runOps u ops db1)) =
           (sum_list (map treatedOf ops) + sum_list (map notTreatedOf ops) \<le> sum_list (map uploadsOf ops))"
    using c [of ops] unfolding r by simp
  show ?thesis
    using c [of ops] inv c [of "replicate n Upload @ outcomesOf bs"]
      c [of "replicate n Upload @ [BulkOutcome k m now]"]
    by (simp add: sums_outcomes sum_list_replicate)
qed

theorem counters_count_operations_witness:
  "createUser ''user1'' None emptyDb = (Inr 1, snd (createUser ''user1'' None emptyDb))
   \<and> map total_files_uploaded (userRows ''user1''
        (runOps ''user1'' [Upload, Upload, Outcome True 5, Outcome False 6]
           (snd (createUser ''user1'' None emptyDb)))) = [2]
   \<and> map total_files_treated (userRows ''user1''
        (runOps ''user1'' [Upload, Upload, Outcome True 5, Outcome False 6]
           (snd (createUser ''user1'' None emptyDb)))) = [1]
   \<and> map total_files_not_treated (userRows ''user1''
        (runOps ''user1'' [Upload, Upload, Outcome True 5, Outcome False 6]
           (snd (createUser ''user1'' None emptyDb)))) = [1]"
proof -
  have h: "createUser ''user1'' None emptyDb = (Inr 1, snd (createUser ''user1'' None emptyDb))"
    by (simp add: createUser_def emptyDb_def)
  show ?thesis
    using h counters_count_operations [OF h, of "[Upload, Upload, Outcome True 5, Outcome False 6]"]
    by simp
qed

section \<open>Queue positions\<close>

lemma digitVal_nth: "d < 10 \<Longrightarrow> digitVal (digitChars ! d) = d"
proof -
  assume "d < 10"
  then have "d = 0 \<or> d = 1 \<or> d = 2 \<or> d = 3 \<or> d = 4 \<or> d = 5 \<or> d = 6 \<or> d = 7 \<or> d = 8 \<or> d = 9"
    by arith
  then show ?thesis
    by (elim disjE) (simp_all add: digitVal_def digitChars_def)
qed

lemma readNat_showNat: "readNat (showNat n) = n"
proof (induction n rule: showNat.induct)
  case (1 n)
  show ?case
  proof (cases "n < 10")
    case True
    then show ?thesis
      by (subst showNat.simps) (simp add: readNat_def digitVal_nth)
  next
    case False
    then have "readNat (showNat (n div 10)) = n div 10" using 1 by simp
    then have "readNat (showNat (n div 10) @ [digitChars ! (n mod 10)]) = 10 * (n div 10) + n mod 10"
      by (simp add: readNat_def digitVal_nth)
    with False show ?thesis
      by (subst showNat.simps) simp
  qed
qed

lemma showNat_inj: "showNat a = showNat b \<Longrightarrow> a = b"
  using readNat_showNat by metis

lemma position_inj: "position a = position b \<Longrightarrow> a = b"
  by (simp add: position_def showNat_inj)

lemma createUser_fresh:
  assumes "userPosition \<notin> set (map user_queue_position (dbt2_user db))"
  shows "fst (createUser userPosition None db) = Inr (dbt2_seq db + 1)"
    and "map user_queue_position (dbt2_user (snd (createUser userPosition None db))) =
           map user_queue_position (dbt2_user db) @ [userPosition]"
  using assms by (simp_all add: createUser_def Let_def)

lemma getUserSession_canonical:
  assumes "canonical db"
  shows "fst (getUserSession None None db) = Inr (position (Suc (length (dbt2_user db))))
       \<and> canonical (snd (getUserSession None None db))
       \<and> length (dbt2_user (snd (getUserSession None None db))) = Suc (length (dbt2_user db))"
proof -
  let ?n = "length (dbt2_user db)"
  let ?p = "position (Suc ?n)"
  have "?p \<notin> position ` {1..<Suc ?n}"
  proof
    assume "?p \<in> position ` {1..<Suc ?n}"
    then obtain x where x: "?p = position x" "x \<in> {1..<Suc ?n}"
      by (rule imageE)
    from x(1) have "Suc ?n = x" by (rule position_inj)
    with x(2) show False by simp
  qed
  then have "?p \<notin> set (map position [1..<Suc ?n])"
    unfolding set_map set_upt .
  with assms have fresh: "?p \<notin> set (map user_queue_position (dbt2_user db))"
    unfolding canonical_def by simp
  have g: "getNextUserPosition None db = Inr ?p"
    by (simp add: getNextUserPosition_def position_def)
  have s: "getUserSession None None db = (Inr ?p, snd (createUser ?p None db))"
    using createUser_fresh(1) [OF fresh]
    by (cases "createUser ?p None db") (simp add: getUserSession_def g)
  have "map user_queue_position (dbt2_user (snd (createUser ?p None db))) =
      map position [1..<Suc ?n] @ [?p]"
    using createUser_fresh(2) [OF fresh] assms unfolding canonical_def by simp
  also have "\<dots> = map position ([1..<Suc ?n] @ [Suc ?n])" by simp
  also have "[1..<Suc ?n] @ [Suc ?n] = [1..<Suc (Suc ?n)]" by simp
  finally have m: "map user_queue_position (dbt2_user (snd (createUser ?p None db))) =
      map position [1..<Suc (Suc ?n)]" .
  have l: "length (dbt2_user (snd (createUser ?p None db))) = Suc ?n"
    using arg_cong [OF createUser_fresh(2) [OF fresh], of length] by simp
  from m l have "canonical (snd (createUser ?p None db))"
    unfolding canonical_def by simp
  with s l show ?thesis by simp
qed

lemma sessions_canonical:
  "canonical db \<Longrightarrow>
   fst (sessions n db) = map (\<lambda>i. Inr (position i)) [Suc (length (dbt2_user db))..<Suc (length (dbt2_user db)) + n]"
proof (induction n arbitrary: db)
  case 0
  then show ?case by simp
next
  case (Suc n)
  let ?s = "getUserSession None None db"
  from getUserSession_canonical [OF Suc.prems]
  have r: "fst ?s = Inr (position (Suc (length (dbt2_user db))))"
    and c: "canonical (snd ?s)"
    and l: "length (dbt2_user (snd ?s)) = Suc (length (dbt2_user db))"
    by blast+
  have "fst (sessions (Suc n) db) = fst ?s # fst (sessions n (snd ?s))"
    by (simp add: case_prod_beta Let_def)
  also have "\<dots> = Inr (position (Suc (length (dbt2_user db))))
      # map (\<lambda>i. Inr (position i)) [Suc (Suc (length (dbt2_user db)))..<Suc (Suc (length (dbt2_user db))) + n]"
    using Suc.IH [OF c] r l by simp
  also have "\<dots> = map (\<lambda>i. Inr (position i)) [Suc (length (dbt2_user db))..<Suc (length (dbt2_user db)) + Suc n]"
    using upt_conv_Cons [of "Suc (length (dbt2_user db))" "Suc (length (dbt2_user db)) + Suc n"]
    by simp
  finally show ?case .
qed

lemma canonical_empty: "canonical emptyDb"
  by (simp add: canonical_def emptyDb_def)

text \<open>
  C4, as the specification states it, fails: \<^verbatim>\<open>getNextUserPosition\<close> counts the rows and
  changes nothing, so two callers whose reads both come before the first insert get the
  same position \<^verbatim>\<open>user1\<close>, and the second insert breaks the \<^verbatim>\<open>UNIQUE\<close> constraint.
\<close>

theorem concurrent_positions_counterexample:
  "allocated (runSchedule [ReadPosition 1, ReadPosition 2, InsertUser 1, InsertUser 2] emptyDb) =
     [''user1'', ''user1'']
   \<and> inserted (runSchedule [ReadPosition 1, ReadPosition 2, InsertUser 1, InsertUser 2] emptyDb) =
       [Inr 1, Inl UniqueViolation]
   \<and> card (set (allocated
        (runSchedule [ReadPosition 1, ReadPosition 2, InsertUser 1, InsertUser 2] emptyDb))) \<noteq> 2"
proof -
  have a: "allocated (runSchedule [ReadPosition 1, ReadPosition 2, InsertUser 1, InsertUser 2] emptyDb) =
     [''user1'', ''user1'']" by code_simp
  have b: "inserted (runSchedule [ReadPosition 1, ReadPosition 2, InsertUser 1, InsertUser 2] emptyDb) =
       [Inr 1, Inl UniqueViolation]" by code_simp
  show ?thesis unfolding a b by simp
qed

lemma createUser_distinct:
  "distinct (map user_queue_position (dbt2_user db)) \<Longrightarrow>
   distinct (map user_queue_position (dbt2_user (snd (createUser userPosition fault db))))"
  by (auto simp: createUser_def Let_def split: option.splits)

lemma runStep_distinct:
  assumes "distinct (map user_queue_position (dbt2_user (sdb s)))"
  shows "distinct (map user_queue_position (dbt2_user (sdb (runStep s st))))"
proof (cases st)
  case (ReadPosition caller)
  with assms show ?thesis
    by (simp add: runStep_def split: sum.splits)
next
  case (InsertUser caller)
  show ?thesis
  proof (cases "held s caller")
    case None
    with assms InsertUser show ?thesis by (simp add: runStep_def)
  next
    case (Some userPosition)
    with InsertUser createUser_distinct [OF assms, of userPosition None] show ?thesis
      by (simp add: runStep_def case_prod_beta)
  qed
qed

lemma foldl_runStep_distinct:
  "distinct (map user_queue_position (dbt2_user (sdb s))) \<Longrightarrow>
   distinct (map user_queue_position (dbt2_user (sdb (foldl runStep s steps))))"
  by (induction steps arbitrary: s) (simp_all add: runStep_distinct)

lemma runSchedule_distinct:
  "distinct (map user_queue_position (dbt2_user (sdb (runSchedule steps emptyDb))))"
  unfolding runSchedule_def by (rule foldl_runStep_distinct) (simp add: emptyDb_def)

text \<open>
  C4, amended. When sessions run one after the other, each reading its position and
  inserting its row before the next one reads, the positions returned from an empty
  table on are \<^verbatim>\<open>user1\<close>, \<^verbatim>\<open>user2\<close>, ... in this order, all different: \<open>n\<close> sessions
  return \<open>n\<close> different positions. In whatever order the reads and inserts of callers
  interleave, the positions stored in the user table stay different from each other,
  since an insert of a position that is already there is rejected.
\<close>

theorem sequential_positions_distinct:
  "fst (sessions n emptyDb) = map (\<lambda>i. Inr (''user'' @ showNat i)) [1..<Suc n]
   \<and> distinct (fst (sessions n emptyDb))
   \<and> card (set (fst (sessions n emptyDb))) = n
   \<and> distinct (map user_queue_position (dbt2_user (sdb (runSchedule steps emptyDb))))"
proof -
  have e: "fst (sessions n emptyDb) = map (\<lambda>i. Inr (position i)) [1..<Suc n]"
    using sessions_canonical [OF canonical_empty, of n] by (simp add: emptyDb_def)
  have "inj_on (\<lambda>i. (Inr (position i) :: db_error + string)) (set [1..<Suc n])"
    by (auto simp: inj_on_def dest: position_inj)
  then have d: "distinct (fst (sessions n emptyDb))"
    unfolding e by (simp add: distinct_map)
  from d have "card (set (fst (sessions n emptyDb))) = length (fst (sessions n emptyDb))"
    by (rule distinct_card)
  with e d runSchedule_distinct [of steps] show ?thesis by (simp add: position_def)
qed




section \<open>The words that the global match finds\<close>




















section \<open>Properties of extractKeywords\<close>


























text \<open>
  The word \<^verbatim>\<open>constructor\<close> is counted wrongly. \<^verbatim>\<open>wordCount\<close> is a plain object, so
  \<^verbatim>\<open>wordCount['constructor']\<close> is the inherited function \<^verbatim>\<open>Object\<close> before the word
  is stored; \<^verbatim>\<open>(wordCount[word] || 0) + 1\<close> is then a string, the comparator gives
  \<^verbatim>\<open>NaN\<close> for it, and the word keeps its place whatever its frequency: in
  \<^verbatim>\<open>constructor alpha alpha\<close> it comes before the more frequent \<^verbatim>\<open>alpha\<close>.
\<close>

lemma extractKeywords_constructor:
  "extractKeywords ''constructor alpha alpha'' = [''constructor'', ''alpha'']
   \<and> wordCounts ''constructor alpha alpha'' =
       [(''constructor'', Str ''function Object() { [native code] }1''), (''alpha'', Num 2)]
   \<and> take 5 (rankedWords (matchWords ''constructor alpha alpha'')) = [''alpha'', ''constructor'']"
  by code_simp


end
